theory Spec2Isabelle
  imports Main "HOL-Library.Sublist"
begin

section \<open>Data model of pkg/imagestream/imagestream.go\<close>

text \<open>
  The facade \<open>imageStream\<close> of the file sits between the registry and the cluster's
  metadata service. The records below are the Go structs the file reads and writes, with
  the fields the file touches (nested structs are flattened: \<open>stream.Status.Tags\<close> is
  the field \<open>Status_Tags\<close>). A \<open>digest.Digest\<close> is a Go string type and its
  \<open>String()\<close> is the identity, so a digest is a string here.
\<close>

type_synonym digest = string

record TagEvent =
  Created :: int
  DockerImageReference :: string
  Image :: string
  Generation :: int

record NamedTagEventList =
  Tag :: string
  Items :: "TagEvent list"

record TagReference =
  Name :: string
  ImportPolicy_Insecure :: bool

record ImageStream =
  Namespace :: string
  Name :: string
  Annotations :: "string \<rightharpoonup> string"
  Spec_Tags :: "TagReference list"
  Status_DockerImageRepository :: string
  Status_PublicDockerImageRepository :: string
  Status_Tags :: "NamedTagEventList list"

record Image =
  Name :: string
  DockerImageReference :: string
  DockerImageManifest :: string

record ImageStreamMapping =
  Namespace :: string
  Name :: string
  Image :: Image
  Tag :: string

record ImageBlobReferences =
  Config :: "string option"
  Layers :: "string list"

text \<open>
  \<open>ImageStreamLayers.Images\<close> is a Go map; the list holds its entries in the order the
  \<open>range\<close> statement of \<open>RemoteRepositoriesForBlob\<close> visits them.
\<close>

record ImageStreamLayers =
  Images :: "(string \<times> ImageBlobReferences) list"

record DockerImageReference =
  Registry :: string
  Namespace :: string
  Name :: string

text \<open>
  Modelled from the spec: the result types \<open>RemoteRepository\<close> and
  \<open>ImageStreamReference\<close> are declared in another file of the package; the spec gives a
  remote repository as registry host, namespace and name, and an image stream
  reference as a namespace and a name.
\<close>

record RemoteRepository =
  Host :: string
  Namespace :: string
  Name :: string

record ImageStreamReference =
  Namespace :: string
  Name :: string

subsection \<open>Errors\<close>

text \<open>
  \<open>metav1.Status\<close> as carried by a \<open>*kerrors.StatusError\<close>; \<open>Details\<close> is a pointer
  and may be nil. A Go \<open>error\<close> that is not a \<open>*kerrors.StatusError\<close> is kept by its
  message.
\<close>

record StatusDetails =
  Name :: string
  Group :: string
  Kind :: string

record Status =
  Message :: string
  Reason :: string
  Details :: "StatusDetails option"
  Code :: int

datatype go_error = StatusError Status | OtherError string

text \<open>
  \<open>rerrors.NewError(code, message, err)\<close>: the facade's error value. Its cause is a
  transport error or, in \<open>convertImageStreamGetterError\<close>, another coded error.
\<close>

datatype rerror = NewError (Code: string) (Message: string) (Err: "go_error + rerror")

definition ErrImageStreamCode :: string where
  "ErrImageStreamCode = ''ImageStream:''"

definition ErrImageStreamUnknownErrorCode :: string where
  "ErrImageStreamUnknownErrorCode = ErrImageStreamCode @ ''Unknown''"

definition ErrImageStreamNotFoundCode :: string where
  "ErrImageStreamNotFoundCode = ErrImageStreamCode @ ''NotFound''"

definition ErrImageStreamImageNotFoundCode :: string where
  "ErrImageStreamImageNotFoundCode = ErrImageStreamCode @ ''ImageNotFound''"

definition ErrImageStreamForbiddenCode :: string where
  "ErrImageStreamForbiddenCode = ErrImageStreamCode @ ''Forbidden''"

text \<open>
  Modelled from the spec: the stream getter's internal codes
  \<open>ErrImageStreamGetterNotFoundCode\<close>, \<open>ErrImageStreamGetterForbiddenCode\<close> and its
  unknown-error code are constants declared beside the getter, outside this file. The
  spec gives three outcome classes, each with a distinct internal code.
\<close>

definition ErrImageStreamGetterNotFoundCode :: string where
  "ErrImageStreamGetterNotFoundCode = ''ImageStreamGetter:NotFound''"

definition ErrImageStreamGetterForbiddenCode :: string where
  "ErrImageStreamGetterForbiddenCode = ''ImageStreamGetter:Forbidden''"

definition ErrImageStreamGetterUnknownErrorCode :: string where
  "ErrImageStreamGetterUnknownErrorCode = ''ImageStreamGetter:Unknown''"

text \<open>A function that may dereference a nil pointer either returns or panics.\<close>

datatype 'a outcome = Return 'a | Panic

subsection \<open>Collaborators consumed through their interfaces\<close>

text \<open>
  The file calls library functions whose code is not part of it: the error
  classifiers of \<open>kerrors\<close> and \<open>quotautil\<close>, the tag-history helpers of
  \<open>originutil\<close>, the digest codec, the reference parser and the resolver
  \<open>remoteRepositoriesForImages\<close>. They are parameters of the model: every theorem
  holds for whatever these functions compute. The classifiers are applied to non-nil
  errors only; on a nil error each of them answers false.
\<close>

record externals =
  kerrors_IsNotFound :: "go_error \<Rightarrow> bool"
  kerrors_IsAlreadyExists :: "go_error \<Rightarrow> bool"
  kerrors_IsConflict :: "go_error \<Rightarrow> bool"
  kerrors_IsForbidden :: "go_error \<Rightarrow> bool"
  kerrors_IsUnauthorized :: "go_error \<Rightarrow> bool"
  quotautil_IsErrorQuotaExceeded :: "go_error \<Rightarrow> bool"
  originutil_ResolveImageID :: "ImageStream \<Rightarrow> string \<Rightarrow> go_error + TagEvent"
  originutil_LatestImageTagEvent :: "ImageStream \<Rightarrow> string \<Rightarrow> string \<times> TagEvent option"
  digest_Parse :: "string \<Rightarrow> go_error + digest"
  imageapi_ParseDockerImageReference :: "string \<Rightarrow> DockerImageReference \<times> go_error option"
  imageapi_InsecureRepositoryAnnotation :: string
  remoteRepositoriesForImages ::
    "ImageStream \<Rightarrow> string list \<Rightarrow> RemoteRepository list \<times> ImageStreamReference list"

text \<open>
  \<open>client.Interface\<close>: the operations of the metadata service this file (and its two
  getters) call. The service has a state of its own, of type \<open>'w\<close>; a call answers and
  moves the service to its next state, so that the calls a function issues, and their
  order, can be read off the state it leaves behind. The stream that
  \<open>ImageStreams(ns).Create\<close> returns is discarded by the file and left out.
\<close>

record 'w Interface =
  ImageStreams_Get :: "string \<Rightarrow> string \<Rightarrow> 'w \<Rightarrow> (go_error + ImageStream) \<times> 'w"
  ImageStreams_Layers :: "string \<Rightarrow> string \<Rightarrow> 'w \<Rightarrow> (go_error + ImageStreamLayers) \<times> 'w"
  ImageStreams_Create :: "string \<Rightarrow> ImageStream \<Rightarrow> 'w \<Rightarrow> go_error option \<times> 'w"
  ImageStreamMappings_Create :: "string \<Rightarrow> ImageStreamMapping \<Rightarrow> 'w \<Rightarrow> go_error option \<times> 'w"
  Images_Get :: "string \<Rightarrow> 'w \<Rightarrow> (go_error + Image) \<times> 'w"

subsection \<open>The two getters\<close>

text \<open>
  Modelled from the spec: \<open>cachedImageStreamGetter\<close> (its fields \<open>namespace\<close>,
  \<open>name\<close> and \<open>isNamespacer\<close> are set in \<open>New\<close> and \<open>Clone\<close>; its methods
  \<open>get\<close>, \<open>layers\<close> and \<open>cacheImageStream\<close> are outside this file). The spec makes
  \<open>get\<close> and \<open>layers\<close> two independent memoization cells, each either not yet
  fetched or holding the outcome of its one fetch, a failure carrying one of the three
  internal codes; \<open>cacheImageStream\<close> overwrites the memoized snapshot.
\<close>

record 'w cachedImageStreamGetter =
  namespace :: string
  name :: string
  isNamespacer :: "'w Interface"
  cachedImageStream :: "(rerror + ImageStream) option"
  cachedImageStreamLayers :: "(rerror + ImageStreamLayers) option"

definition getterError :: "externals \<Rightarrow> string \<Rightarrow> go_error \<Rightarrow> rerror" where
  "getterError X msg e =
     NewError
       (if kerrors_IsNotFound X e then ErrImageStreamGetterNotFoundCode
        else if kerrors_IsForbidden X e then ErrImageStreamGetterForbiddenCode
        else ErrImageStreamGetterUnknownErrorCode)
       msg (Inl e)"

definition get ::
  "externals \<Rightarrow> 'w cachedImageStreamGetter \<Rightarrow> 'w \<Rightarrow>
     (rerror + ImageStream) \<times> 'w cachedImageStreamGetter \<times> 'w" where
  "get X g w =
     (case cachedImageStream g of
        Some r \<Rightarrow> (r, g, w)
      | None \<Rightarrow>
          (case ImageStreams_Get (isNamespacer g)
                  (cachedImageStreamGetter.namespace g) (cachedImageStreamGetter.name g) w of
             (res, w') \<Rightarrow>
               (let r = (case res of
                           Inl e \<Rightarrow> Inl (getterError X ''failed to get image stream'' e)
                         | Inr s \<Rightarrow> Inr s)
                in (r, g\<lparr>cachedImageStream := Some r\<rparr>, w'))))"

definition layers ::
  "externals \<Rightarrow> 'w cachedImageStreamGetter \<Rightarrow> 'w \<Rightarrow>
     (rerror + ImageStreamLayers) \<times> 'w cachedImageStreamGetter \<times> 'w" where
  "layers X g w =
     (case cachedImageStreamLayers g of
        Some r \<Rightarrow> (r, g, w)
      | None \<Rightarrow>
          (case ImageStreams_Layers (isNamespacer g)
                  (cachedImageStreamGetter.namespace g) (cachedImageStreamGetter.name g) w of
             (res, w') \<Rightarrow>
               (let r = (case res of
                           Inl e \<Rightarrow> Inl (getterError X ''failed to get image stream layers'' e)
                         | Inr l \<Rightarrow> Inr l)
                in (r, g\<lparr>cachedImageStreamLayers := Some r\<rparr>, w'))))"

definition cacheImageStream ::
  "'w cachedImageStreamGetter \<Rightarrow> ImageStream \<Rightarrow> 'w cachedImageStreamGetter" where
  "cacheImageStream g s = g\<lparr>cachedImageStream := Some (Inr s)\<rparr>"

text \<open>
  Modelled from the spec: the image getter behind \<open>newCachedImageGetter\<close> (outside this
  file). \<open>Get\<close> returns a pointer to the image record; the first call for a digest
  fetches and memoizes the outcome, later calls return the memoized outcome without a
  fetch. Image records live in a store, a list indexed by address, so that a pointer
  handed out twice is the same address; a fetched record is allocated at the end.
\<close>

record 'w cachedImageGetter =
  client :: "'w Interface"
  cache :: "digest \<rightharpoonup> (go_error + nat)"

definition newCachedImageGetter :: "'w Interface \<Rightarrow> 'w cachedImageGetter" where
  "newCachedImageGetter c = \<lparr>client = c, cache = Map.empty\<rparr>"

definition Get ::
  "'w cachedImageGetter \<Rightarrow> digest \<Rightarrow> Image list \<Rightarrow> 'w \<Rightarrow>
     (go_error + nat) \<times> 'w cachedImageGetter \<times> Image list \<times> 'w" where
  "Get ig dgst store w =
     (case cache ig dgst of
        Some r \<Rightarrow> (r, ig, store, w)
      | None \<Rightarrow>
          (case Images_Get (client ig) dgst w of
             (Inl e, w') \<Rightarrow> (Inl e, ig\<lparr>cache := (cache ig)(dgst \<mapsto> Inl e)\<rparr>, store, w')
           | (Inr img, w') \<Rightarrow>
               (Inr (length store),
                ig\<lparr>cache := (cache ig)(dgst \<mapsto> Inr (length store))\<rparr>,
                store @ [img], w')))"

section \<open>The facade\<close>

record 'w imageStream =
  namespace :: string
  name :: string
  registryOSClient :: "'w Interface"
  imageClient :: "'w cachedImageGetter"
  imageStreamGetter :: "'w cachedImageStreamGetter"

definition New :: "string \<Rightarrow> string \<Rightarrow> 'w Interface \<Rightarrow> 'w imageStream" where
  "New ns nm c =
     \<lparr>namespace = ns, name = nm, registryOSClient = c,
      imageClient = newCachedImageGetter c,
      imageStreamGetter =
        \<lparr>cachedImageStreamGetter.namespace = ns, cachedImageStreamGetter.name = nm,
         isNamespacer = c, cachedImageStream = None, cachedImageStreamLayers = None\<rparr>\<rparr>"

definition Reference :: "'w imageStream \<Rightarrow> string" where
  "Reference is = namespace is @ ''/'' @ name is"

definition convertImageStreamGetterError :: "rerror \<Rightarrow> string \<Rightarrow> rerror" where
  "convertImageStreamGetterError err msg =
     (let code = ErrImageStreamUnknownErrorCode;
          code = (if rerror.Code err = ErrImageStreamGetterNotFoundCode
                    then ErrImageStreamNotFoundCode
                  else if rerror.Code err = ErrImageStreamGetterForbiddenCode
                    then ErrImageStreamForbiddenCode
                  else code)
      in NewError code msg (Inr err))"

definition Exists ::
  "externals \<Rightarrow> 'w imageStream \<Rightarrow> 'w \<Rightarrow> (bool \<times> rerror option) \<times> 'w imageStream \<times> 'w" where
  "Exists X is w =
     (case get X (imageStreamGetter is) w of
        (Inl rErr, g, w') \<Rightarrow>
          if rerror.Code rErr = ErrImageStreamGetterNotFoundCode
          then ((False, None), is\<lparr>imageStreamGetter := g\<rparr>, w')
          else ((False,
                 Some (convertImageStreamGetterError rErr
                         (''Exists: failed to get image stream '' @ Reference is))),
                is\<lparr>imageStreamGetter := g\<rparr>, w')
      | (Inr s, g, w') \<Rightarrow> ((True, None), is\<lparr>imageStreamGetter := g\<rparr>, w'))"

text \<open>
  \<open>ResolveImageID\<close> (lines 133-156). The search through the tag history is
  \<open>originutil.ResolveImageID\<close>, a collaborator; the facade translates its failure.
\<close>

definition ResolveImageID ::
  "externals \<Rightarrow> 'w imageStream \<Rightarrow> digest \<Rightarrow> 'w \<Rightarrow> (rerror + TagEvent) \<times> 'w imageStream \<times> 'w" where
  "ResolveImageID X is dgst w =
     (case get X (imageStreamGetter is) w of
        (Inl rErr, g, w') \<Rightarrow>
          (Inl (convertImageStreamGetterError rErr
                  (''ResolveImageID: failed to get image stream '' @ Reference is)),
           is\<lparr>imageStreamGetter := g\<rparr>, w')
      | (Inr stream, g, w') \<Rightarrow>
          (case originutil_ResolveImageID X stream dgst of
             Inl err \<Rightarrow>
               (let code = ErrImageStreamUnknownErrorCode;
                    code = (if kerrors_IsNotFound X err then ErrImageStreamImageNotFoundCode
                            else code)
                in (Inl (NewError code
                           (''ResolveImageID: unable to resolve ImageID '' @ dgst
                              @ '' in image stream '' @ Reference is)
                           (Inl err)),
                    is\<lparr>imageStreamGetter := g\<rparr>, w'))
           | Inr tagEvent \<Rightarrow> (Inr tagEvent, is\<lparr>imageStreamGetter := g\<rparr>, w')))"

text \<open>
  \<open>getImage\<close> (lines 110-129) returns the pointer the image getter hands out: an
  address of the image store.
\<close>

definition getImage ::
  "externals \<Rightarrow> 'w imageStream \<Rightarrow> digest \<Rightarrow> Image list \<Rightarrow> 'w \<Rightarrow>
     (rerror + nat) \<times> 'w imageStream \<times> Image list \<times> 'w" where
  "getImage X is dgst store w =
     (case Get (imageClient is) dgst store w of
        (Inl err, ig, store', w') \<Rightarrow>
          (if kerrors_IsNotFound X err
           then Inl (NewError ErrImageStreamImageNotFoundCode
                       (''getImage: unable to find image digest '' @ dgst @ '' in '' @ name is)
                       (Inl err))
           else Inl (NewError ErrImageStreamUnknownErrorCode
                       (''getImage: unable to get image digest '' @ dgst @ '' in '' @ name is)
                       (Inl err)),
           is\<lparr>imageClient := ig\<rparr>, store', w')
      | (Inr ptr, ig, store', w') \<Rightarrow> (Inr ptr, is\<lparr>imageClient := ig\<rparr>, store', w'))"

definition getStoredImageOfImageStream ::
  "externals \<Rightarrow> 'w imageStream \<Rightarrow> digest \<Rightarrow> Image list \<Rightarrow> 'w \<Rightarrow>
     (rerror + nat \<times> TagEvent) \<times> 'w imageStream \<times> Image list \<times> 'w" where
  "getStoredImageOfImageStream X is dgst store w =
     (case ResolveImageID X is dgst w of
        (Inl err, is1, w1) \<Rightarrow> (Inl err, is1, store, w1)
      | (Inr tagEvent, is1, w1) \<Rightarrow>
          (case getImage X is1 dgst store w1 of
             (Inl err, is2, store2, w2) \<Rightarrow> (Inl err, is2, store2, w2)
           | (Inr ptr, is2, store2, w2) \<Rightarrow> (Inr (ptr, tagEvent), is2, store2, w2)))"

text \<open>
  \<open>GetImageOfImageStream\<close> (lines 191-202). The pointer \<open>image\<close> of the source is
  \<open>ptr\<close>; \<open>img := *image\<close> reads the record at the pointer (a nil or dangling pointer
  panics), the assignment changes the local copy,
  and \<open>&img\<close> is a new address.
\<close>

definition GetImageOfImageStream ::
  "externals \<Rightarrow> 'w imageStream \<Rightarrow> digest \<Rightarrow> Image list \<Rightarrow> 'w \<Rightarrow>
     (rerror + nat) outcome \<times> 'w imageStream \<times> Image list \<times> 'w" where
  "GetImageOfImageStream X is dgst store w =
     (case getStoredImageOfImageStream X is dgst store w of
        (Inl err, is', store', w') \<Rightarrow> (Return (Inl err), is', store', w')
      | (Inr (ptr, tagEvent), is', store', w') \<Rightarrow>
          (if ptr < length store'
           then (let img = store' ! ptr;
                     img = img\<lparr>Image.DockerImageReference := TagEvent.DockerImageReference tagEvent\<rparr>
                 in (Return (Inr (length store')), is', store' @ [img], w'))
           else (Panic, is', store', w')))"

text \<open>
  \<open>TagIsInsecure\<close> (lines 218-243). The loop over \<open>stream.Spec.Tags\<close> answers
  \<open>Some\<close> where the source returns from inside the loop and \<open>None\<close> where it runs to
  its end. A key missing from the annotations reads as the empty string.
\<close>

fun TagIsInsecure_loop :: "TagReference list \<Rightarrow> string \<Rightarrow> bool option" where
  "TagIsInsecure_loop [] tag = None"
| "TagIsInsecure_loop (t # ts) tag =
     (if TagReference.Name t = tag then Some (ImportPolicy_Insecure t)
      else TagIsInsecure_loop ts tag)"

definition TagIsInsecure ::
  "externals \<Rightarrow> 'w imageStream \<Rightarrow> string \<Rightarrow> digest \<Rightarrow> 'w \<Rightarrow>
     (bool \<times> rerror option) \<times> 'w imageStream \<times> 'w" where
  "TagIsInsecure X is tag dgst w =
     (case get X (imageStreamGetter is) w of
        (Inl err, g, w') \<Rightarrow>
          ((False,
            Some (convertImageStreamGetterError err
                    (''TagIsInsecure: failed to get image stream '' @ Reference is))),
           is\<lparr>imageStreamGetter := g\<rparr>, w')
      | (Inr stream, g, w') \<Rightarrow>
          (let insecure = (case Annotations stream (imageapi_InsecureRepositoryAnnotation X) of
                             Some v \<Rightarrow> v | None \<Rightarrow> [])
           in if insecure = ''true'' then ((True, None), is\<lparr>imageStreamGetter := g\<rparr>, w')
              else
                (let tag = (if length tag = 0
                            then fst (originutil_LatestImageTagEvent X stream dgst)
                            else tag)
                 in if length tag \<noteq> 0
                    then (case TagIsInsecure_loop (Spec_Tags stream) tag of
                            Some b \<Rightarrow> ((b, None), is\<lparr>imageStreamGetter := g\<rparr>, w')
                          | None \<Rightarrow> ((False, None), is\<lparr>imageStreamGetter := g\<rparr>, w'))
                    else ((False, None), is\<lparr>imageStreamGetter := g\<rparr>, w'))))"

text \<open>
  \<open>getLocalRegistryNames\<close> (lines 256-278): a parse error is logged only, and the
  registry of whatever reference the parser returned is still used.
\<close>

definition getLocalRegistryNames :: "externals \<Rightarrow> ImageStream \<Rightarrow> string list" where
  "getLocalRegistryNames X stream =
     (let localNames = [];
          local = fst (imageapi_ParseDockerImageReference X (Status_DockerImageRepository stream));
          localNames = (if length (Registry local) \<noteq> 0 then localNames @ [Registry local]
                        else localNames)
      in if length (Status_PublicDockerImageRepository stream) \<noteq> 0
         then (let public = fst (imageapi_ParseDockerImageReference X
                                   (Status_PublicDockerImageRepository stream))
               in if length (Registry public) \<noteq> 0 then localNames @ [Registry public]
                  else localNames)
         else localNames)"

text \<open>
  \<open>imageStreamHasExternalReferences\<close> (lines 280-302), one function per loop: the
  innermost sets \<open>local\<close> and breaks, the two outer ones answer \<open>True\<close> where the
  source returns true from inside.
\<close>

fun hasLocalPrefix :: "string list \<Rightarrow> string \<Rightarrow> bool" where
  "hasLocalPrefix [] ref = False"
| "hasLocalPrefix (p # ps) ref = (if prefix p ref then True else hasLocalPrefix ps ref)"

fun itemsHaveExternal :: "string list \<Rightarrow> TagEvent list \<Rightarrow> bool" where
  "itemsHaveExternal localPrefixes [] = False"
| "itemsHaveExternal localPrefixes (item # items) =
     (if \<not> hasLocalPrefix localPrefixes (TagEvent.DockerImageReference item) then True
      else itemsHaveExternal localPrefixes items)"

fun tagsHaveExternal :: "string list \<Rightarrow> NamedTagEventList list \<Rightarrow> bool" where
  "tagsHaveExternal localPrefixes [] = False"
| "tagsHaveExternal localPrefixes (tag # tags) =
     (if itemsHaveExternal localPrefixes (Items tag) then True
      else tagsHaveExternal localPrefixes tags)"

definition imageStreamHasExternalReferences :: "externals \<Rightarrow> ImageStream \<Rightarrow> bool" where
  "imageStreamHasExternalReferences X stream =
     (let localRegistry = getLocalRegistryNames X stream;
          localPrefixes =
            map (\<lambda>registry. registry @ ''/'' @ ImageStream.Namespace stream @ ''/''
                              @ ImageStream.Name stream @ ''@'')
                localRegistry
      in tagsHaveExternal localPrefixes (Status_Tags stream))"

definition imageBlobReferencesHasBlob :: "ImageBlobReferences \<Rightarrow> digest \<Rightarrow> bool" where
  "imageBlobReferencesHasBlob info dgst =
     (if (case Config info of None \<Rightarrow> False | Some c \<Rightarrow> c = dgst) then True
      else dgst \<in> set (Layers info))"

text \<open>
  \<open>RemoteRepositoriesForBlob\<close> (lines 321-359). A nil slice is the empty list.
\<close>

definition RemoteRepositoriesForBlob ::
  "externals \<Rightarrow> 'w imageStream \<Rightarrow> digest \<Rightarrow> 'w \<Rightarrow>
     (RemoteRepository list \<times> ImageStreamReference list \<times> rerror option) \<times> 'w imageStream \<times> 'w" where
  "RemoteRepositoriesForBlob X is dgst w =
     (case get X (imageStreamGetter is) w of
        (Inl err, g, w1) \<Rightarrow>
          (([], [],
            Some (convertImageStreamGetterError err
                    (''RemoteRepositoriesForBlob: failed to get image stream '' @ Reference is))),
           is\<lparr>imageStreamGetter := g\<rparr>, w1)
      | (Inr stream, g, w1) \<Rightarrow>
          if \<not> imageStreamHasExternalReferences X stream
          then (([], [], None), is\<lparr>imageStreamGetter := g\<rparr>, w1)
          else
            (case layers X g w1 of
               (Inl err, g2, w2) \<Rightarrow>
                 (([], [],
                   Some (convertImageStreamGetterError err
                           (''RemoteRepositoriesForBlob: failed to get image stream layers ''
                              @ Reference is))),
                  is\<lparr>imageStreamGetter := g2\<rparr>, w2)
             | (Inr ls, g2, w2) \<Rightarrow>
                 (let images = map fst (filter (\<lambda>(img, info). imageBlobReferencesHasBlob info dgst)
                                          (Images ls))
                  in if length images = 0
                     then (([], [], None), is\<lparr>imageStreamGetter := g2\<rparr>, w2)
                     else (case remoteRepositoriesForImages X stream images of
                             (repos, isrefs) \<Rightarrow>
                               ((repos, isrefs, None), is\<lparr>imageStreamGetter := g2\<rparr>, w2)))))"

definition RemoteRepositoriesForManifest ::
  "externals \<Rightarrow> 'w imageStream \<Rightarrow> digest \<Rightarrow> 'w \<Rightarrow>
     (RemoteRepository list \<times> ImageStreamReference list \<times> rerror option) \<times> 'w imageStream \<times> 'w" where
  "RemoteRepositoriesForManifest X is dgst w =
     (case get X (imageStreamGetter is) w of
        (Inl err, g, w1) \<Rightarrow>
          (([], [],
            Some (convertImageStreamGetterError err
                    (''RemoteRepositoriesForManifest: failed to get image stream ''
                       @ Reference is))),
           is\<lparr>imageStreamGetter := g\<rparr>, w1)
      | (Inr stream, g, w1) \<Rightarrow>
          (case remoteRepositoriesForImages X stream [dgst] of
             (repos, isrefs) \<Rightarrow> ((repos, isrefs, None), is\<lparr>imageStreamGetter := g\<rparr>, w1)))"

text \<open>
  \<open>Tags\<close> (lines 378-403): the loop over \<open>stream.Status.Tags\<close> with the map \<open>m\<close> it
  fills; both \<open>continue\<close> statements go on with the map unchanged.
\<close>

fun Tags_loop ::
  "externals \<Rightarrow> NamedTagEventList list \<Rightarrow> (string \<rightharpoonup> digest) \<Rightarrow> (string \<rightharpoonup> digest)" where
  "Tags_loop X [] m = m"
| "Tags_loop X (history # rest) m =
     (case Items history of
        [] \<Rightarrow> Tags_loop X rest m
      | item0 # _ \<Rightarrow>
          (case digest_Parse X (TagEvent.Image item0) of
             Inl err \<Rightarrow> Tags_loop X rest m
           | Inr dgst \<Rightarrow> Tags_loop X rest (m(NamedTagEventList.Tag history \<mapsto> dgst))))"

definition Tags ::
  "externals \<Rightarrow> 'w imageStream \<Rightarrow> 'w \<Rightarrow> (rerror + (string \<rightharpoonup> digest)) \<times> 'w imageStream \<times> 'w" where
  "Tags X is w =
     (case get X (imageStreamGetter is) w of
        (Inl err, g, w') \<Rightarrow>
          (Inl (convertImageStreamGetterError err
                  (''Tags: failed to get image stream '' @ Reference is)),
           is\<lparr>imageStreamGetter := g\<rparr>, w')
      | (Inr stream, g, w') \<Rightarrow>
          (Inr (Tags_loop X (Status_Tags stream) Map.empty), is\<lparr>imageStreamGetter := g\<rparr>, w'))"

text \<open>
  \<open>strings.ToLower\<close>, on the ASCII letters. The source compares its result with the
  literal \<open>"namespaces"\<close> only, and no character outside ASCII lower-cases to a letter
  of that word, so the other bytes are left as they are.
\<close>

definition toLowerChar :: "char \<Rightarrow> char" where
  "toLowerChar c =
     (case map_of (zip ''ABCDEFGHIJKLMNOPQRSTUVWXYZ'' ''abcdefghijklmnopqrstuvwxyz'') c of
        Some l \<Rightarrow> l
      | None \<Rightarrow> c)"

definition ToLower :: "string \<Rightarrow> string" where
  "ToLower s = map toLowerChar s"

definition StatusNotFound :: int where
  "StatusNotFound = 404"

text \<open>The zero value \<open>imageapiv1.ImageStream{}\<close>.\<close>

definition ImageStream_zero :: ImageStream where
  "ImageStream_zero =
     \<lparr>ImageStream.Namespace = [], ImageStream.Name = [], Annotations = Map.empty,
      Spec_Tags = [], Status_DockerImageRepository = [],
      Status_PublicDockerImageRepository = [], Status_Tags = []\<rparr>"

text \<open>
  \<open>CreateImageStreamMapping\<close> (lines 405-506), in two definitions.
  \<open>autoProvision\<close> is the second half of the function (lines 461-506): the creation of
  the stream through the user's client, the injection into the getter's cache and the
  second attempt to create the mapping. It is entered with the mapping \<open>ism\<close> built at
  the top of the function and with the service in the state the first attempt left.
\<close>

definition autoProvision ::
  "externals \<Rightarrow> 'w imageStream \<Rightarrow> 'w Interface \<Rightarrow> ImageStreamMapping \<Rightarrow> 'w \<Rightarrow>
     rerror option outcome \<times> 'w imageStream \<times> 'w" where
  "autoProvision X is userClient ism w1 =
     (let stream = ImageStream_zero\<lparr>ImageStream.Name := name is\<rparr>
      in case ImageStreams_Create userClient (namespace is) stream w1 of
           (err, w2) \<Rightarrow>
             (let denied =
                    (case err of
                       None \<Rightarrow> None
                     | Some e \<Rightarrow>
                         if kerrors_IsAlreadyExists X e \<or> kerrors_IsConflict X e then None
                         else if kerrors_IsForbidden X e \<or> kerrors_IsUnauthorized X e
                                  \<or> quotautil_IsErrorQuotaExceeded X e
                           then Some (NewError ErrImageStreamForbiddenCode
                                        (''CreateImageStreamMapping: denied creating ImageStream ''
                                           @ Reference is)
                                        (Inl e))
                         else Some (NewError ErrImageStreamUnknownErrorCode
                                      (''CreateImageStreamMapping: error auto provisioning ImageStream ''
                                         @ Reference is)
                                      (Inl e)))
              in case denied of
                   Some rerr \<Rightarrow> (Return (Some rerr), is, w2)
                 | None \<Rightarrow>
                     (let is' = is\<lparr>imageStreamGetter := cacheImageStream (imageStreamGetter is) stream\<rparr>
                      in case ImageStreamMappings_Create (registryOSClient is) (namespace is) ism w2 of
                           (None, w3) \<Rightarrow> (Return None, is', w3)
                         | (Some e, w3) \<Rightarrow>
                             if quotautil_IsErrorQuotaExceeded X e
                             then (Return (Some (NewError ErrImageStreamForbiddenCode
                                      (''CreateImageStreamMapping: quota exceeded during creation of ''
                                         @ Reference is @ '' ImageStreamMapping second time'')
                                      (Inl e))), is', w3)
                             else (Return (Some (NewError ErrImageStreamUnknownErrorCode
                                      (''CreateImageStreamMapping: error creating ''
                                         @ Reference is @ '' ImageStreamMapping second time'')
                                      (Inl e))), is', w3))))"

text \<open>
  The first half (lines 405-459). \<open>*image\<close> panics on a nil image. The condition of
  line 442 reads \<open>status.Details.Kind\<close> with no test of \<open>status.Details\<close>: Go
  evaluates the right operand of \<open>&&\<close> exactly when \<open>kerrors.IsNotFound\<close> holds, and
  the read panics when the pointer is nil, so the condition is an \<open>outcome\<close>. With a
  nil \<open>Details\<close> the flag \<open>isValidKind\<close> of line 450 stays false and line 453
  returns at its first disjunct; \<open>status.Details.Name\<close> is read with a non-nil
  pointer only.
\<close>

definition CreateImageStreamMapping ::
  "externals \<Rightarrow> 'w imageStream \<Rightarrow> 'w Interface \<Rightarrow> string \<Rightarrow> Image option \<Rightarrow> 'w \<Rightarrow>
     rerror option outcome \<times> 'w imageStream \<times> 'w" where
  "CreateImageStreamMapping X is userClient tag imagePtr w =
     (case imagePtr of
        None \<Rightarrow> (Panic, is, w)
      | Some img \<Rightarrow>
          (let ism = \<lparr>ImageStreamMapping.Namespace = namespace is,
                      ImageStreamMapping.Name = name is,
                      ImageStreamMapping.Image = img,
                      ImageStreamMapping.Tag = tag\<rparr>
           in case ImageStreamMappings_Create (registryOSClient is) (namespace is) ism w of
                (None, w1) \<Rightarrow> (Return None, is, w1)
              | (Some err, w1) \<Rightarrow>
                  if quotautil_IsErrorQuotaExceeded X err
                  then (Return (Some (NewError ErrImageStreamForbiddenCode
                           (''CreateImageStreamMapping: quota exceeded during creation of ''
                              @ Reference is @ '' ImageStreamMapping'')
                           (Inl err))), is, w1)
                  else
                    (case err of
                       OtherError msg \<Rightarrow>
                         (Return (Some (NewError ErrImageStreamUnknownErrorCode
                            (''CreateImageStreamMapping: error creating ''
                               @ Reference is @ '' ImageStreamMapping'')
                            (Inl err))), is, w1)
                     | StatusError status \<Rightarrow>
                         (case (if kerrors_IsNotFound X err
                                then (case Details status of
                                        None \<Rightarrow> Panic
                                      | Some d \<Rightarrow> Return (ToLower (Kind d) = ''namespaces''))
                                else Return False) of
                            Panic \<Rightarrow> (Panic, is, w1)
                          | Return True \<Rightarrow>
                              (Return (Some (NewError ErrImageStreamForbiddenCode
                                 (''CreateImageStreamMapping: error creating ''
                                    @ Reference is @ '' ImageStreamMapping'')
                                 (Inl err))), is, w1)
                          | Return False \<Rightarrow>
                              (let unknown =
                                     (Return (Some (NewError ErrImageStreamUnknownErrorCode
                                        (''CreateImageStreamMapping: error creation of ''
                                           @ Reference is @ '' ImageStreamMapping'')
                                        (Inl err))), is, w1)
                               in case Details status of
                                    None \<Rightarrow> unknown
                                  | Some d \<Rightarrow>
                                      (let isValidKind = (Kind d = ''imagestreammappings'')
                                       in if \<not> isValidKind
                                             \<or> Status.Code status \<noteq> StatusNotFound
                                             \<or> StatusDetails.Name d \<noteq> name is
                                          then unknown
                                          else autoProvision X is userClient ism w1))))))"

text \<open>
  \<open>Clone\<close> (lines 92-107) returns a pointer, and whether that pointer is the receiver
  is what the function is about. Facades live in a store, a list indexed by address;
  the receiver \<open>this\<close> is an address, a composite literal behind \<open>&\<close> is allocated at
  the end of the store, and a receiver that points nowhere panics at its first field
  read.
\<close>

definition Clone ::
  "'w imageStream list \<Rightarrow> nat \<Rightarrow> string \<Rightarrow> string \<Rightarrow> (nat \<times> 'w imageStream list) outcome" where
  "Clone heap this ns nm =
     (if this < length heap
      then (let is = heap ! this
            in if namespace is = ns \<and> name is = nm then Return (this, heap)
               else Return
                      (length heap,
                       heap @
                       [\<lparr>namespace = ns, name = nm,
                         registryOSClient = registryOSClient is,
                         imageClient = newCachedImageGetter (registryOSClient is),
                         imageStreamGetter =
                           \<lparr>cachedImageStreamGetter.namespace = ns,
                            cachedImageStreamGetter.name = nm,
                            isNamespacer = registryOSClient is,
                            cachedImageStream = None,
                            cachedImageStreamLayers = None\<rparr>\<rparr>]))
      else Panic)"

section \<open>Definitions in the words of the specification\<close>

text \<open>
  Modelled from the spec: \<open>originutil.ResolveImageID\<close> (package
  \<open>pkg/origin-common/util\<close>) is not in this file. The docstring of the facade's
  \<open>ResolveImageID\<close> (lines 131-132) says what it does: it "returns latest TagEvent for
  specified imageID and an error if there's more than one image matching the ID or when
  one does not exist". The spec has it find "the single TagEvent across all tags whose
  recorded digest equals the target" and fail for "zero or more than one match". Where
  the two differ, on several TagEvents that record one image, the docstring of the
  source is followed: what is counted is the images, not the events. Neither text says
  which image names match an ID, nor which errors the helper returns, so the matching
  relation and the two errors are parameters of the model; the spec's matching is
  equality.
\<close>

definition matchingTagEvents ::
  "(string \<Rightarrow> string \<Rightarrow> bool) \<Rightarrow> ImageStream \<Rightarrow> string \<Rightarrow> TagEvent list" where
  "matchingTagEvents matches stream imageID =
     concat (map (\<lambda>history. filter (\<lambda>e. matches (TagEvent.Image e) imageID) (Items history))
                 (Status_Tags stream))"

definition matchingImages ::
  "(string \<Rightarrow> string \<Rightarrow> bool) \<Rightarrow> ImageStream \<Rightarrow> string \<Rightarrow> string list" where
  "matchingImages matches stream imageID =
     remdups (map TagEvent.Image (matchingTagEvents matches stream imageID))"

text \<open>The latest of a list of events: none is created after it; the first of these.\<close>

fun latestTagEvent :: "TagEvent list \<Rightarrow> TagEvent option" where
  "latestTagEvent [] = None"
| "latestTagEvent (e # es) =
     (case latestTagEvent es of
        None \<Rightarrow> Some e
      | Some l \<Rightarrow> if Created e < Created l then Some l else Some e)"

definition ResolveImageID_doc ::
  "(string \<Rightarrow> string \<Rightarrow> bool) \<Rightarrow> (string \<Rightarrow> go_error) \<Rightarrow> (string \<Rightarrow> go_error) \<Rightarrow>
     ImageStream \<Rightarrow> string \<Rightarrow> go_error + TagEvent" where
  "ResolveImageID_doc matches missing ambiguous stream imageID =
     (case matchingImages matches stream imageID of
        [] \<Rightarrow> Inl (missing imageID)
      | [img] \<Rightarrow>
          (case latestTagEvent (matchingTagEvents matches stream imageID) of
             None \<Rightarrow> Inl (missing imageID)
           | Some te \<Rightarrow> Inr te)
      | _ \<Rightarrow> Inl (ambiguous imageID))"

text \<open>
  Modelled from the spec: \<open>originutil.LatestImageTagEvent\<close> (outside this file), which
  the spec describes as "locating the most recent TagEvent for the digest": of the
  events that record the digest, the one created last, with the name of its tag, and
  the empty name when there is none. Used where a concrete helper is needed; the
  theorems hold for any helper.
\<close>

fun latestOf :: "string \<Rightarrow> string \<Rightarrow> TagEvent list \<Rightarrow> string \<times> TagEvent option \<Rightarrow> string \<times> TagEvent option" where
  "latestOf imageID tagName [] acc = acc"
| "latestOf imageID tagName (e # es) acc =
     latestOf imageID tagName es
       (if TagEvent.Image e = imageID
           \<and> (case snd acc of None \<Rightarrow> True | Some l \<Rightarrow> Created l < Created e)
        then (tagName, Some e) else acc)"

definition LatestImageTagEvent_spec :: "ImageStream \<Rightarrow> string \<Rightarrow> string \<times> TagEvent option" where
  "LatestImageTagEvent_spec stream imageID =
     fold (\<lambda>history acc. latestOf imageID (NamedTagEventList.Tag history) (Items history) acc)
          (Status_Tags stream) ([], None)"

text \<open>
  \<open>TagIsInsecure\<close> as the spec words it: true if the stream-level insecure
  annotation is set; else, if no tag name was given, the tag is the one of the most
  recent TagEvent for the digest; then that tag's import-policy insecure flag in the
  tag spec, and false if no tag is resolved or the tag is absent from the spec.
\<close>

definition TagIsInsecure_spec :: "externals \<Rightarrow> ImageStream \<Rightarrow> string \<Rightarrow> digest \<Rightarrow> bool" where
  "TagIsInsecure_spec X stream tag dgst =
     (if Annotations stream (imageapi_InsecureRepositoryAnnotation X) = Some ''true'' then True
      else (let resolved = (if tag = [] then fst (originutil_LatestImageTagEvent X stream dgst)
                            else tag)
            in if resolved = [] then False
               else (case find (\<lambda>t. TagReference.Name t = resolved) (Spec_Tags stream) of
                       None \<Rightarrow> False
                     | Some t \<Rightarrow> ImportPolicy_Insecure t)))"

text \<open>
  The local prefixes of the has-external-references test, as the spec builds them:
  \<open>{registry-host}/{namespace}/{name}@\<close> for each known local registry hostname.
\<close>

definition localPrefix :: "ImageStream \<Rightarrow> string \<Rightarrow> string" where
  "localPrefix stream host =
     host @ ''/'' @ ImageStream.Namespace stream @ ''/'' @ ImageStream.Name stream @ ''@''"

text \<open>
  The head of a tag's history as \<open>Tags\<close> reads it: nothing for an empty history or a
  first digest string that does not parse, the parsed digest otherwise.
\<close>

definition headDigest :: "externals \<Rightarrow> NamedTagEventList \<Rightarrow> digest option" where
  "headDigest X history =
     (case Items history of
        [] \<Rightarrow> None
      | e # _ \<Rightarrow> (case digest_Parse X (TagEvent.Image e) of Inl _ \<Rightarrow> None | Inr d \<Rightarrow> Some d))"

text \<open>
  The parsed head digests of the histories listed under one tag name, in the order of
  \<open>stream.Status.Tags\<close>. A stream lists a tag once; were it listed twice, the map of
  \<open>Tags\<close> would keep the last of these.
\<close>

definition headDigests :: "externals \<Rightarrow> ImageStream \<Rightarrow> string \<Rightarrow> digest list" where
  "headDigests X stream t =
     List.map_filter
       (\<lambda>history. if NamedTagEventList.Tag history = t then headDigest X history else None)
       (Status_Tags stream)"

text \<open>
  The first failure of the mapping creation that the source takes for "the stream does
  not exist yet" (lines 450-453): details of kind \<open>imagestreammappings\<close>, status code
  404 and the name of the stream.
\<close>

definition streamMissing :: "'w imageStream \<Rightarrow> go_error \<Rightarrow> bool" where
  "streamMissing is err =
     (case err of
        OtherError _ \<Rightarrow> False
      | StatusError status \<Rightarrow>
          (case Details status of
             None \<Rightarrow> False
           | Some d \<Rightarrow>
               Kind d = ''imagestreammappings'' \<and> Status.Code status = 404
               \<and> StatusDetails.Name d = name is))"

text \<open>
  A structured not-found error that names the namespace as the missing resource, as
  line 442 tests it: the kind is compared after lower-casing.
\<close>

definition namespaceNotFound :: "externals \<Rightarrow> go_error \<Rightarrow> bool" where
  "namespaceNotFound X err =
     (case err of
        OtherError _ \<Rightarrow> False
      | StatusError status \<Rightarrow>
          kerrors_IsNotFound X err
          \<and> (case Details status of None \<Rightarrow> False | Some d \<Rightarrow> ToLower (Kind d) = ''namespaces''))"

definition notFoundWithoutDetails :: "externals \<Rightarrow> go_error \<Rightarrow> bool" where
  "notFoundWithoutDetails X err =
     (case err of
        OtherError _ \<Rightarrow> False
      | StatusError status \<Rightarrow> kerrors_IsNotFound X err \<and> Details status = None)"

text \<open>The image cache is well formed when every pointer it holds is in the store.\<close>

definition cacheInStore :: "'w cachedImageGetter \<Rightarrow> Image list \<Rightarrow> bool" where
  "cacheInStore ig store = (\<forall>d p. cache ig d = Some (Inr p) \<longrightarrow> p < length store)"

section \<open>A sample environment\<close>

text \<open>
  Concrete collaborators, on which the theorems are run. The classifiers read the
  reason of a structured error, as \<open>kerrors.ReasonForError\<close> does; the quota classifier
  asks for a forbidden error whose message is the quota message; the helper behind
  \<open>ResolveImageID\<close> matches an image name that equals the ID and fails with a
  not-found error for a missing image and a conflict error for an ambiguous ID; the
  digest codec
  accepts the strings that start with \<open>sha256:\<close>; the reference parser cuts a
  reference \<open>host/namespace/name\<close> at its slashes.
\<close>

definition sampleMissingImage :: "string \<Rightarrow> go_error" where
  "sampleMissingImage imageID =
     StatusError
       \<lparr>Status.Message = ''imagestreamimage '' @ imageID @ '' not found'', Reason = ''NotFound'',
        Details = Some \<lparr>StatusDetails.Name = imageID, Group = [], Kind = ''imagestreamimage''\<rparr>,
        Status.Code = 404\<rparr>"

definition sampleAmbiguousImage :: "string \<Rightarrow> go_error" where
  "sampleAmbiguousImage imageID =
     StatusError
       \<lparr>Status.Message = ''multiple images match '' @ imageID, Reason = ''Conflict'',
        Details = Some \<lparr>StatusDetails.Name = imageID, Group = [], Kind = ''imagestreamimage''\<rparr>,
        Status.Code = 409\<rparr>"

definition ReasonForError :: "go_error \<Rightarrow> string" where
  "ReasonForError e = (case e of StatusError status \<Rightarrow> Reason status | OtherError _ \<Rightarrow> [])"

definition sampleParseReference :: "string \<Rightarrow> DockerImageReference \<times> go_error option" where
  "sampleParseReference s =
     (let host = takeWhile (\<lambda>c. c \<noteq> CHR ''/'') s;
          rest = drop (Suc (length host)) s;
          ns = takeWhile (\<lambda>c. c \<noteq> CHR ''/'') rest;
          nm = drop (Suc (length ns)) rest
      in if nm = [] then (\<lparr>Registry = [], DockerImageReference.Namespace = [],
                            DockerImageReference.Name = []\<rparr>,
                          Some (OtherError ''invalid reference format''))
         else (\<lparr>Registry = host, DockerImageReference.Namespace = ns,
                 DockerImageReference.Name = nm\<rparr>, None))"

definition sampleExternals :: externals where
  "sampleExternals =
     \<lparr>kerrors_IsNotFound = (\<lambda>e. ReasonForError e = ''NotFound''),
      kerrors_IsAlreadyExists = (\<lambda>e. ReasonForError e = ''AlreadyExists''),
      kerrors_IsConflict = (\<lambda>e. ReasonForError e = ''Conflict''),
      kerrors_IsForbidden = (\<lambda>e. ReasonForError e = ''Forbidden''),
      kerrors_IsUnauthorized = (\<lambda>e. ReasonForError e = ''Unauthorized''),
      quotautil_IsErrorQuotaExceeded =
        (\<lambda>e. case e of
                 StatusError status \<Rightarrow>
                   Reason status = ''Forbidden'' \<and> Status.Message status = ''exceeded quota''
               | OtherError _ \<Rightarrow> False),
      originutil_ResolveImageID = ResolveImageID_doc (=) sampleMissingImage sampleAmbiguousImage,
      originutil_LatestImageTagEvent = LatestImageTagEvent_spec,
      digest_Parse =
        (\<lambda>s. if prefix ''sha256:'' s then Inr s else Inl (OtherError ''invalid checksum digest format'')),
      imageapi_ParseDockerImageReference = sampleParseReference,
      imageapi_InsecureRepositoryAnnotation = ''openshift.io/image.insecureRepository'',
      remoteRepositoriesForImages = (\<lambda>stream images. ([], []))\<rparr>"

text \<open>
  A service that records the calls it receives: its state is the list of calls so far,
  each with the client that issued it, the operation and the arguments. What it answers
  is fixed by a script; the answer to a mapping creation depends on how many mapping
  creations came before.
\<close>

datatype call = Call string string "string list"

record script =
  onGet :: "go_error + ImageStream"
  onLayers :: "go_error + ImageStreamLayers"
  onStreamCreate :: "go_error option"
  onMappingCreate :: "nat \<Rightarrow> go_error option"
  onImageGet :: "go_error + Image"

fun isMappingCreate :: "call \<Rightarrow> bool" where
  "isMappingCreate (Call who operation args) = (operation = ''ImageStreamMappings.Create'')"

definition recording :: "string \<Rightarrow> script \<Rightarrow> call list Interface" where
  "recording who sc =
     \<lparr>ImageStreams_Get = (\<lambda>ns nm calls. (onGet sc, calls @ [Call who ''ImageStreams.Get'' [ns, nm]])),
      ImageStreams_Layers =
        (\<lambda>ns nm calls. (onLayers sc, calls @ [Call who ''ImageStreams.Layers'' [ns, nm]])),
      ImageStreams_Create =
        (\<lambda>ns stream calls.
           (onStreamCreate sc,
            calls @ [Call who ''ImageStreams.Create'' [ns, ImageStream.Name stream]])),
      ImageStreamMappings_Create =
        (\<lambda>ns ism calls.
           (onMappingCreate sc (length (filter isMappingCreate calls)),
            calls @ [Call who ''ImageStreamMappings.Create''
                       [ns, ImageStreamMapping.Name ism, ImageStreamMapping.Tag ism]])),
      Images_Get = (\<lambda>dgst calls. (onImageGet sc, calls @ [Call who ''Images.Get'' [dgst]]))\<rparr>"


definition sampleImage :: Image where
  "sampleImage =
     \<lparr>Image.Name = ''sha256:aa'', Image.DockerImageReference = ''registry.local/ns/app@sha256:aa'',
      DockerImageManifest = []\<rparr>"

definition sampleStream :: ImageStream where
  "sampleStream =
     \<lparr>ImageStream.Namespace = ''ns'', ImageStream.Name = ''app'', Annotations = Map.empty,
      Spec_Tags = [\<lparr>TagReference.Name = ''latest'', ImportPolicy_Insecure = True\<rparr>,
                   \<lparr>TagReference.Name = ''stable'', ImportPolicy_Insecure = False\<rparr>],
      Status_DockerImageRepository = ''registry.local/ns/app'',
      Status_PublicDockerImageRepository = [],
      Status_Tags =
        [\<lparr>NamedTagEventList.Tag = ''latest'',
          Items = [\<lparr>Created = 2, TagEvent.DockerImageReference = ''quay.example/team/app@sha256:aa'',
                    TagEvent.Image = ''sha256:aa'', Generation = 2\<rparr>,
                   \<lparr>Created = 1, TagEvent.DockerImageReference = ''registry.local/ns/app@sha256:bb'',
                    TagEvent.Image = ''sha256:bb'', Generation = 1\<rparr>]\<rparr>,
         \<lparr>NamedTagEventList.Tag = ''stable'',
          Items = [\<lparr>Created = 1, TagEvent.DockerImageReference = ''registry.local/ns/app@sha256:bb'',
                    TagEvent.Image = ''sha256:bb'', Generation = 1\<rparr>]\<rparr>,
         \<lparr>NamedTagEventList.Tag = ''empty'', Items = []\<rparr>,
         \<lparr>NamedTagEventList.Tag = ''broken'',
          Items = [\<lparr>Created = 3, TagEvent.DockerImageReference = ''registry.local/ns/app@md5:cc'',
                    TagEvent.Image = ''md5:cc'', Generation = 3\<rparr>]\<rparr>]\<rparr>"

definition sampleScript :: script where
  "sampleScript =
     \<lparr>onGet = Inr sampleStream, onLayers = Inr \<lparr>Images = []\<rparr>, onStreamCreate = None,
      onMappingCreate = (\<lambda>n. None), onImageGet = Inr sampleImage\<rparr>"

definition sampleFacade :: "script \<Rightarrow> call list imageStream" where
  "sampleFacade sc = New ''ns'' ''app'' (recording ''registry'' sc)"

definition statusError :: "string \<Rightarrow> int \<Rightarrow> StatusDetails option \<Rightarrow> go_error" where
  "statusError reason code details =
     StatusError \<lparr>Status.Message = reason, Reason = reason, Details = details, Status.Code = code\<rparr>"

definition errQuota :: go_error where
  "errQuota =
     StatusError \<lparr>Status.Message = ''exceeded quota'', Reason = ''Forbidden'', Details = None,
                  Status.Code = 403\<rparr>"

definition errNamespaceMissing :: go_error where
  "errNamespaceMissing =
     statusError ''NotFound'' 404
       (Some \<lparr>StatusDetails.Name = ''ns'', Group = [], Kind = ''namespaces''\<rparr>)"

definition errNamespaceMixedCase :: go_error where
  "errNamespaceMixedCase =
     statusError ''NotFound'' 404
       (Some \<lparr>StatusDetails.Name = ''ns'', Group = [], Kind = ''Namespaces''\<rparr>)"

definition errStreamMissing :: go_error where
  "errStreamMissing =
     statusError ''NotFound'' 404
       (Some \<lparr>StatusDetails.Name = ''app'', Group = ''image.openshift.io'',
              Kind = ''imagestreammappings''\<rparr>)"

definition errOtherStream :: go_error where
  "errOtherStream =
     statusError ''NotFound'' 404
       (Some \<lparr>StatusDetails.Name = ''other'', Group = ''image.openshift.io'',
              Kind = ''imagestreammappings''\<rparr>)"

definition errNotFoundNoDetails :: go_error where
  "errNotFoundNoDetails = statusError ''NotFound'' 404 None"

text \<open>The script whose first mapping creation fails with \<open>e\<close> and whose second succeeds.\<close>

definition failingFirst :: "go_error \<Rightarrow> script" where
  "failingFirst e = sampleScript\<lparr>onMappingCreate := (\<lambda>n. if n = 0 then Some e else None)\<rparr>"

definition sampleMapping :: ImageStreamMapping where
  "sampleMapping =
     \<lparr>ImageStreamMapping.Namespace = ''ns'', ImageStreamMapping.Name = ''app'',
      ImageStreamMapping.Image = sampleImage, ImageStreamMapping.Tag = ''latest''\<rparr>"

definition errAlreadyExists :: go_error where
  "errAlreadyExists =
     statusError ''AlreadyExists'' 409
       (Some \<lparr>StatusDetails.Name = ''app'', Group = ''image.openshift.io'',
              Kind = ''imagestreams''\<rparr>)"

definition errForbidden :: go_error where
  "errForbidden = statusError ''Forbidden'' 403 None"

text \<open>
  The script whose first mapping creation fails with \<open>e1\<close> and whose later ones fail
  with \<open>e2\<close>.
\<close>

definition failingBoth :: "go_error \<Rightarrow> go_error \<Rightarrow> script" where
  "failingBoth e1 e2 =
     sampleScript\<lparr>onMappingCreate := (\<lambda>n. if n = 0 then Some e1 else Some e2)\<rparr>"

text \<open>
  A stream whose status holds references into the local repository only, and a facade
  whose getter already holds a stream.
\<close>

definition localStream :: ImageStream where
  "localStream =
     sampleStream
       \<lparr>Status_Tags :=
          [\<lparr>NamedTagEventList.Tag = ''stable'',
            Items = [\<lparr>Created = 1,
                      TagEvent.DockerImageReference = ''registry.local/ns/app@sha256:bb'',
                      TagEvent.Image = ''sha256:bb'', Generation = 1\<rparr>]\<rparr>]\<rparr>"

definition warmFacade :: "call list imageStream" where
  "warmFacade =
     (sampleFacade sampleScript)
       \<lparr>imageStreamGetter :=
          cacheImageStream (imageStreamGetter (sampleFacade sampleScript)) sampleStream\<rparr>"

section \<open>Facts used throughout\<close>

lemmas code_defs =
  ErrImageStreamCode_def ErrImageStreamUnknownErrorCode_def ErrImageStreamNotFoundCode_def
  ErrImageStreamImageNotFoundCode_def ErrImageStreamForbiddenCode_def
  ErrImageStreamGetterNotFoundCode_def ErrImageStreamGetterForbiddenCode_def
  ErrImageStreamGetterUnknownErrorCode_def

lemma sampleExternals_fields:
  "kerrors_IsNotFound sampleExternals e = (ReasonForError e = ''NotFound'')"
  "kerrors_IsAlreadyExists sampleExternals e = (ReasonForError e = ''AlreadyExists'')"
  "kerrors_IsConflict sampleExternals e = (ReasonForError e = ''Conflict'')"
  "kerrors_IsForbidden sampleExternals e = (ReasonForError e = ''Forbidden'')"
  "kerrors_IsUnauthorized sampleExternals e = (ReasonForError e = ''Unauthorized'')"
  "quotautil_IsErrorQuotaExceeded sampleExternals e =
     (case e of StatusError status \<Rightarrow>
                   Reason status = ''Forbidden'' \<and> Status.Message status = ''exceeded quota''
               | OtherError _ \<Rightarrow> False)"
  "originutil_ResolveImageID sampleExternals
     = ResolveImageID_doc (=) sampleMissingImage sampleAmbiguousImage"
  "originutil_LatestImageTagEvent sampleExternals = LatestImageTagEvent_spec"
  "digest_Parse sampleExternals s =
     (if prefix ''sha256:'' s then Inr s else Inl (OtherError ''invalid checksum digest format''))"
  "imageapi_ParseDockerImageReference sampleExternals = sampleParseReference"
  "imageapi_InsecureRepositoryAnnotation sampleExternals = ''openshift.io/image.insecureRepository''"
  "remoteRepositoriesForImages sampleExternals stream images = ([], [])"
  by (simp_all add: sampleExternals_def)

lemma get_sample:
  "get sampleExternals (imageStreamGetter (sampleFacade sc)) [] =
     ((case onGet sc of Inl e \<Rightarrow> Inl (getterError sampleExternals ''failed to get image stream'' e) | Inr s \<Rightarrow> Inr s),
      (imageStreamGetter (sampleFacade sc))\<lparr>cachedImageStream := Some (case onGet sc of Inl e \<Rightarrow> Inl (getterError sampleExternals ''failed to get image stream'' e) | Inr s \<Rightarrow> Inr s)\<rparr>,
      [Call ''registry'' ''ImageStreams.Get'' [''ns'', ''app'']])"
  by (simp add: get_def Let_def sampleFacade_def New_def recording_def)

lemma ToLower_imagestreammappings: "ToLower ''imagestreammappings'' \<noteq> ''namespaces''"
  by (simp add: ToLower_def)

lemma ToLower_namespaces: "ToLower ''namespaces'' = ''namespaces''"
  by (simp add: ToLower_def toLowerChar_def)

lemma ToLower_Namespaces: "ToLower ''Namespaces'' = ''namespaces''"
  by (simp add: ToLower_def toLowerChar_def)

lemma first_create_sample:
  "ImageStreamMappings_Create (registryOSClient (sampleFacade (failingFirst e)))
     (namespace (sampleFacade (failingFirst e)))
     \<lparr>ImageStreamMapping.Namespace = namespace (sampleFacade (failingFirst e)),
      ImageStreamMapping.Name = name (sampleFacade (failingFirst e)),
      ImageStreamMapping.Image = sampleImage, ImageStreamMapping.Tag = ''latest''\<rparr> []
   = (Some e, [Call ''registry'' ''ImageStreamMappings.Create'' [''ns'', ''app'', ''latest'']])"
  by (simp add: sampleFacade_def New_def recording_def failingFirst_def)

lemmas sample_errors =
  errQuota_def errNamespaceMissing_def errNamespaceMixedCase_def errStreamMissing_def
  errOtherStream_def errNotFoundNoDetails_def statusError_def

lemma sample_name: "name (sampleFacade sc) = ''app''" "namespace (sampleFacade sc) = ''ns''"
  by (simp_all add: sampleFacade_def New_def)

lemma mapping_create_sample:
  "ImageStreamMappings_Create (registryOSClient (sampleFacade sc)) (namespace (sampleFacade sc))
     \<lparr>ImageStreamMapping.Namespace = namespace (sampleFacade sc),
      ImageStreamMapping.Name = name (sampleFacade sc),
      ImageStreamMapping.Image = img, ImageStreamMapping.Tag = tag\<rparr> calls
   = (onMappingCreate sc (length (filter isMappingCreate calls)),
      calls @ [Call ''registry'' ''ImageStreamMappings.Create'' [''ns'', ''app'', tag]])"
  by (simp add: sampleFacade_def New_def recording_def)

lemma stream_create_sample:
  "ImageStreams_Create (recording ''user'' sc) (namespace (sampleFacade sc'))
     (ImageStream_zero\<lparr>ImageStream.Name := name (sampleFacade sc')\<rparr>) calls
   = (onStreamCreate sc, calls @ [Call ''user'' ''ImageStreams.Create'' [''ns'', ''app'']])"
  by (simp add: sampleFacade_def New_def recording_def ImageStream_zero_def)

lemma get_sample_ok:
  assumes "onGet sc = Inr s"
  shows "get sampleExternals (imageStreamGetter (sampleFacade sc)) [] =
     (Inr s, (imageStreamGetter (sampleFacade sc))\<lparr>cachedImageStream := Some (Inr s)\<rparr>,
      [Call ''registry'' ''ImageStreams.Get'' [''ns'', ''app'']])"
  using assms by (simp add: get_sample)

lemma onGet_sample: "onGet sampleScript = Inr sampleStream"
  by (simp add: sampleScript_def)

lemma TagIsInsecure_loop_find:
  "TagIsInsecure_loop ts tag =
     map_option ImportPolicy_Insecure (find (\<lambda>t. TagReference.Name t = tag) ts)"
  by (induction ts) auto

lemma Tags_loop_last:
  "Tags_loop X hs m t =
     (case List.map_filter (\<lambda>history. if NamedTagEventList.Tag history = t then headDigest X history else None) hs of
        [] \<Rightarrow> m t
      | d # ds \<Rightarrow> Some (last (d # ds)))"
proof (induction hs arbitrary: m)
  case Nil
  then show ?case by simp
next
  case (Cons h hs)
  show ?case
    by (cases "Items h")
       (auto simp: Cons headDigest_def split: list.splits sum.splits)
qed

lemma headDigests_distinct:
  assumes "distinct (map NamedTagEventList.Tag hs)" and "history \<in> set hs"
  shows "List.map_filter (\<lambda>h. if NamedTagEventList.Tag h = NamedTagEventList.Tag history then headDigest X h else None) hs
         = (case headDigest X history of None \<Rightarrow> [] | Some d \<Rightarrow> [d])"
  using assms
proof (induction hs)
  case Nil
  then show ?case by simp
next
  case (Cons h hs)
  have none: "NamedTagEventList.Tag history \<notin> NamedTagEventList.Tag ` set ks \<Longrightarrow>
        List.map_filter (\<lambda>h. if NamedTagEventList.Tag h = NamedTagEventList.Tag history then headDigest X h else None) ks = []" for ks
    by (induction ks) auto
  show ?case
  proof (cases "history = h")
    case True
    then show ?thesis
      using Cons.prems none [of hs]
      by (auto split: option.splits)
  next
    case False
    then have "history \<in> set hs" using Cons.prems by simp
    moreover have "NamedTagEventList.Tag h \<noteq> NamedTagEventList.Tag history"
      using Cons.prems \<open>history \<in> set hs\<close> by auto
    ultimately show ?thesis
      using Cons by simp
  qed
qed




lemma sample_resolve_aa:
  "ResolveImageID_doc (=) sampleMissingImage sampleAmbiguousImage sampleStream ''sha256:aa''
     = Inr \<lparr>Created = 2, TagEvent.DockerImageReference = ''quay.example/team/app@sha256:aa'',
            TagEvent.Image = ''sha256:aa'', Generation = 2\<rparr>"
  by (simp add: ResolveImageID_doc_def matchingImages_def matchingTagEvents_def sampleStream_def)

lemma hasLocalPrefix_iff: "hasLocalPrefix ps r = (\<exists>p \<in> set ps. prefix p r)"
  by (induction ps) auto

lemma itemsHaveExternal_iff:
  "itemsHaveExternal ps items =
     (\<exists>item \<in> set items. \<not> hasLocalPrefix ps (TagEvent.DockerImageReference item))"
  by (induction items) auto

lemma tagsHaveExternal_iff:
  "tagsHaveExternal ps tags = (\<exists>history \<in> set tags. itemsHaveExternal ps (Items history))"
  by (induction tags) auto

lemma get_keeps_layers:
  "get X g w = (r, g', w') \<Longrightarrow> cachedImageStreamLayers g' = cachedImageStreamLayers g"
  by (auto simp: get_def Let_def split: option.splits prod.splits)

lemma localNames_sample:
  "getLocalRegistryNames sampleExternals sampleStream = [''registry.local'']"
  "getLocalRegistryNames sampleExternals localStream = [''registry.local'']"
  by (simp_all add: getLocalRegistryNames_def sampleExternals_fields sampleParseReference_def
        sampleStream_def localStream_def Let_def)

lemma Get_cached: "cache ig dgst = Some c \<Longrightarrow> Get ig dgst store w = (c, ig, store, w)"
  by (simp add: Get_def)

lemma Get_frame:
  assumes "cacheInStore ig store" and "Get ig dgst store w = (r, ig', store', w')"
  shows "(\<forall>q < length store. store' ! q = store ! q) \<and> length store \<le> length store'
    \<and> cacheInStore ig' store' \<and> client ig' = client ig \<and> cache ig' dgst = Some r
    \<and> (\<forall>p. r = Inr p \<longrightarrow>
          p < length store'
          \<and> (case cache ig dgst of
                Some c \<Rightarrow> c = Inr p \<and> p < length store
              | None \<Rightarrow> fst (Images_Get (client ig) dgst w) = Inr (store' ! p)))"
proof (cases "cache ig dgst")
  case (Some c)
  then show ?thesis
    using assms by (auto simp: Get_def cacheInStore_def)
next
  case None
  obtain res w1 where f: "Images_Get (client ig) dgst w = (res, w1)"
    by (cases "Images_Get (client ig) dgst w")
  show ?thesis
  proof (cases res)
    case (Inl e)
    then show ?thesis
      using assms None f by (auto simp: Get_def cacheInStore_def split: if_splits)
  next
    case (Inr img)
    then show ?thesis
      using assms None f
      by (auto simp: Get_def cacheInStore_def nth_append less_Suc_eq split: if_splits)
  qed
qed

lemma ResolveImageID_keeps_imageClient:
  "ResolveImageID X is dgst w = (r, is1, w1) \<Longrightarrow> imageClient is1 = imageClient is"
  by (auto simp: ResolveImageID_def Let_def split: prod.splits sum.splits)

lemma getImage_Get:
  "getImage X is dgst store w =
     (case Get (imageClient is) dgst store w of
        (r, ig, store', w') \<Rightarrow>
          ((case r of
              Inl err \<Rightarrow>
                Inl (NewError
                       (if kerrors_IsNotFound X err then ErrImageStreamImageNotFoundCode
                        else ErrImageStreamUnknownErrorCode)
                       ((if kerrors_IsNotFound X err then ''getImage: unable to find image digest ''
                         else ''getImage: unable to get image digest '') @ dgst @ '' in '' @ name is)
                       (Inl err))
            | Inr p \<Rightarrow> Inr p),
           is\<lparr>imageClient := ig\<rparr>, store', w'))"
  by (auto simp: getImage_def split: prod.splits sum.splits)

section \<open>Exists\<close>

text \<open>
  Claim C5. \<open>Exists\<close> answers \<open>(true, no error)\<close> exactly when the stream getter
  resolves the stream. When the getter fails with its internal not-found code the answer
  is \<open>(false, no error)\<close>; when it fails with its forbidden code the answer is false
  with an error of code \<open>ImageStream:Forbidden\<close>; when it fails with any other code
  the answer is false with an error of code \<open>ImageStream:Unknown\<close>. The translated
  error keeps the getter's error as its cause, and the facade leaves with the getter
  in the state the one call to \<open>get\<close> produced.
\<close>

theorem Exists_outcomes:
  assumes "get X (imageStreamGetter is) w = (r, g, w')"
  shows "((fst (Exists X is w) = (True, None)) = (\<exists>s. r = Inr s))
    \<and> (\<forall>e. r = Inl e \<and> rerror.Code e = ErrImageStreamGetterNotFoundCode
           \<longrightarrow> fst (Exists X is w) = (False, None))
    \<and> (\<forall>e. r = Inl e \<and> rerror.Code e = ErrImageStreamGetterForbiddenCode
           \<longrightarrow> (\<exists>err. fst (Exists X is w) = (False, Some err)
                 \<and> rerror.Code err = ErrImageStreamForbiddenCode \<and> rerror.Err err = Inr e))
    \<and> (\<forall>e. r = Inl e \<and> rerror.Code e \<noteq> ErrImageStreamGetterNotFoundCode
               \<and> rerror.Code e \<noteq> ErrImageStreamGetterForbiddenCode
           \<longrightarrow> (\<exists>err. fst (Exists X is w) = (False, Some err)
                 \<and> rerror.Code err = ErrImageStreamUnknownErrorCode \<and> rerror.Err err = Inr e))
    \<and> snd (Exists X is w) = (is\<lparr>imageStreamGetter := g\<rparr>, w')"
  using assms
  by (auto simp: Exists_def convertImageStreamGetterError_def code_defs split: sum.splits)

theorem Exists_outcomes_witness:
  "fst (Exists sampleExternals (sampleFacade sampleScript) []) = (True, None)
   \<and> fst (Exists sampleExternals
             (sampleFacade (sampleScript\<lparr>onGet := Inl (statusError ''NotFound'' 404 None)\<rparr>)) [])
       = (False, None)
   \<and> (\<exists>err. fst (Exists sampleExternals
             (sampleFacade (sampleScript\<lparr>onGet := Inl (statusError ''Forbidden'' 403 None)\<rparr>)) [])
       = (False, Some err) \<and> rerror.Code err = ''ImageStream:Forbidden'')
   \<and> (\<exists>err. fst (Exists sampleExternals
             (sampleFacade (sampleScript\<lparr>onGet := Inl (OtherError ''connection refused'')\<rparr>)) [])
       = (False, Some err) \<and> rerror.Code err = ''ImageStream:Unknown'')"
proof -
  have a: "fst (Exists sampleExternals (sampleFacade sampleScript) []) = (True, None)"
    using Exists_outcomes [OF get_sample [of sampleScript]]
    by (simp add: sampleScript_def)
  have b: "fst (Exists sampleExternals
             (sampleFacade (sampleScript\<lparr>onGet := Inl (statusError ''NotFound'' 404 None)\<rparr>)) [])
       = (False, None)"
    using Exists_outcomes [OF get_sample [of "sampleScript\<lparr>onGet := Inl (statusError ''NotFound'' 404 None)\<rparr>"]]
    by (auto simp add: getterError_def sampleExternals_fields ReasonForError_def statusError_def code_defs)
  have c: "\<exists>err. fst (Exists sampleExternals
             (sampleFacade (sampleScript\<lparr>onGet := Inl (statusError ''Forbidden'' 403 None)\<rparr>)) [])
       = (False, Some err) \<and> rerror.Code err = ''ImageStream:Forbidden''"
    using Exists_outcomes [OF get_sample [of "sampleScript\<lparr>onGet := Inl (statusError ''Forbidden'' 403 None)\<rparr>"]]
    by (auto simp add: getterError_def sampleExternals_fields ReasonForError_def statusError_def code_defs)
  have d: "\<exists>err. fst (Exists sampleExternals
             (sampleFacade (sampleScript\<lparr>onGet := Inl (OtherError ''connection refused'')\<rparr>)) [])
       = (False, Some err) \<and> rerror.Code err = ''ImageStream:Unknown''"
    using Exists_outcomes [OF get_sample [of "sampleScript\<lparr>onGet := Inl (OtherError ''connection refused'')\<rparr>"]]
    by (auto simp add: getterError_def sampleExternals_fields ReasonForError_def statusError_def code_defs)
  from a b c d show ?thesis by blast
qed

section \<open>CreateImageStreamMapping\<close>

text \<open>
  Claim C1, as amended. The first failure of the mapping creation is classified as
  follows, and in each case but the third the function returns with the facade
  unchanged and the service in the state that one call left, so nothing is retried.
  A quota-exceeded error yields \<open>ImageStream:Forbidden\<close>. Otherwise a structured
  not-found error whose details name the kind \<open>namespaces\<close>, compared after
  lower-casing, yields \<open>ImageStream:Forbidden\<close>. Otherwise an error whose details
  have the kind \<open>imagestreammappings\<close>, whose status code is 404 and whose detail name
  is the stream's name goes on to auto-provisioning. Every other failure, a not-found
  error without details apart, yields \<open>ImageStream:Unknown\<close>.
\<close>

theorem CreateImageStreamMapping_first_failure:
  assumes "ImageStreamMappings_Create (registryOSClient is) (namespace is)
             \<lparr>ImageStreamMapping.Namespace = namespace is, ImageStreamMapping.Name = name is,
              ImageStreamMapping.Image = img, ImageStreamMapping.Tag = tag\<rparr> w = (Some err, w1)"
  shows "(quotautil_IsErrorQuotaExceeded X err \<longrightarrow>
            (\<exists>e. CreateImageStreamMapping X is userClient tag (Some img) w = (Return (Some e), is, w1)
                 \<and> rerror.Code e = ErrImageStreamForbiddenCode \<and> rerror.Err e = Inl err))
    \<and> (\<not> quotautil_IsErrorQuotaExceeded X err \<and> namespaceNotFound X err \<longrightarrow>
            (\<exists>e. CreateImageStreamMapping X is userClient tag (Some img) w = (Return (Some e), is, w1)
                 \<and> rerror.Code e = ErrImageStreamForbiddenCode \<and> rerror.Err e = Inl err))
    \<and> (\<not> quotautil_IsErrorQuotaExceeded X err \<and> streamMissing is err \<longrightarrow>
            CreateImageStreamMapping X is userClient tag (Some img) w =
              autoProvision X is userClient
                \<lparr>ImageStreamMapping.Namespace = namespace is, ImageStreamMapping.Name = name is,
                 ImageStreamMapping.Image = img, ImageStreamMapping.Tag = tag\<rparr> w1)
    \<and> (\<not> quotautil_IsErrorQuotaExceeded X err \<and> \<not> namespaceNotFound X err
          \<and> \<not> streamMissing is err \<and> \<not> notFoundWithoutDetails X err \<longrightarrow>
            (\<exists>e. CreateImageStreamMapping X is userClient tag (Some img) w = (Return (Some e), is, w1)
                 \<and> rerror.Code e = ErrImageStreamUnknownErrorCode \<and> rerror.Err e = Inl err))"
  using assms ToLower_imagestreammappings
  by (auto simp: CreateImageStreamMapping_def namespaceNotFound_def streamMissing_def
        notFoundWithoutDetails_def StatusNotFound_def Let_def
      split: go_error.splits option.splits)

theorem CreateImageStreamMapping_first_failure_witness:
  "(\<exists>e. CreateImageStreamMapping sampleExternals (sampleFacade (failingFirst errQuota))
          (recording ''user'' sampleScript) ''latest'' (Some sampleImage) []
        = (Return (Some e), sampleFacade (failingFirst errQuota),
           [Call ''registry'' ''ImageStreamMappings.Create'' [''ns'', ''app'', ''latest'']])
        \<and> rerror.Code e = ''ImageStream:Forbidden'')
   \<and> (\<exists>e. CreateImageStreamMapping sampleExternals (sampleFacade (failingFirst errNamespaceMissing))
          (recording ''user'' sampleScript) ''latest'' (Some sampleImage) []
        = (Return (Some e), sampleFacade (failingFirst errNamespaceMissing),
           [Call ''registry'' ''ImageStreamMappings.Create'' [''ns'', ''app'', ''latest'']])
        \<and> rerror.Code e = ''ImageStream:Forbidden'')
   \<and> CreateImageStreamMapping sampleExternals (sampleFacade (failingFirst errStreamMissing))
          (recording ''user'' sampleScript) ''latest'' (Some sampleImage) []
        = autoProvision sampleExternals (sampleFacade (failingFirst errStreamMissing))
            (recording ''user'' sampleScript) sampleMapping
            [Call ''registry'' ''ImageStreamMappings.Create'' [''ns'', ''app'', ''latest'']]
   \<and> (\<exists>e. CreateImageStreamMapping sampleExternals (sampleFacade (failingFirst errOtherStream))
          (recording ''user'' sampleScript) ''latest'' (Some sampleImage) []
        = (Return (Some e), sampleFacade (failingFirst errOtherStream),
           [Call ''registry'' ''ImageStreamMappings.Create'' [''ns'', ''app'', ''latest'']])
        \<and> rerror.Code e = ''ImageStream:Unknown'')"
proof -
  note T = CreateImageStreamMapping_first_failure [OF first_create_sample,
      where X = sampleExternals and userClient = "recording ''user'' sampleScript"]
  have a: "quotautil_IsErrorQuotaExceeded sampleExternals errQuota"
    by (simp add: sampleExternals_fields sample_errors)
  have b: "\<not> quotautil_IsErrorQuotaExceeded sampleExternals errNamespaceMissing
           \<and> namespaceNotFound sampleExternals errNamespaceMissing"
    by (simp add: sampleExternals_fields sample_errors namespaceNotFound_def ReasonForError_def
          ToLower_namespaces)
  have c: "\<not> quotautil_IsErrorQuotaExceeded sampleExternals errStreamMissing
           \<and> streamMissing (sampleFacade (failingFirst errStreamMissing)) errStreamMissing"
    by (simp add: sampleExternals_fields sample_errors streamMissing_def sample_name)
  have d: "\<not> quotautil_IsErrorQuotaExceeded sampleExternals errOtherStream
           \<and> \<not> namespaceNotFound sampleExternals errOtherStream
           \<and> \<not> streamMissing (sampleFacade (failingFirst errOtherStream)) errOtherStream
           \<and> \<not> notFoundWithoutDetails sampleExternals errOtherStream"
    by (simp add: sampleExternals_fields sample_errors streamMissing_def sample_name
          namespaceNotFound_def notFoundWithoutDetails_def ToLower_imagestreammappings)
  show ?thesis
    using T [of errQuota] T [of errNamespaceMissing] T [of errStreamMissing] T [of errOtherStream]
      a b c d
    by (auto simp add: code_defs sampleMapping_def sample_name)
qed

text \<open>
  Claim C1 as it was stated lets every failure outside its three shapes end in
  \<open>ImageStream:Unknown\<close>. A not-found error with the kind \<open>Namespaces\<close> is none of
  the three (its kind is not the string \<open>namespaces\<close>), and it ends in
  \<open>ImageStream:Forbidden\<close>: line 442 lower-cases the kind before it compares.
\<close>

theorem CreateImageStreamMapping_mixed_case_counterexample:
  "Kind \<lparr>StatusDetails.Name = ''ns'', Group = [], Kind = ''Namespaces''\<rparr> \<noteq> ''namespaces''
   \<and> \<not> quotautil_IsErrorQuotaExceeded sampleExternals errNamespaceMixedCase
   \<and> \<not> streamMissing (sampleFacade (failingFirst errNamespaceMixedCase)) errNamespaceMixedCase
   \<and> CreateImageStreamMapping sampleExternals (sampleFacade (failingFirst errNamespaceMixedCase))
        (recording ''user'' sampleScript) ''latest'' (Some sampleImage) []
      = (Return (Some (NewError ''ImageStream:Forbidden''
                         ''CreateImageStreamMapping: error creating ns/app ImageStreamMapping''
                         (Inl errNamespaceMixedCase))),
         sampleFacade (failingFirst errNamespaceMixedCase),
         [Call ''registry'' ''ImageStreamMappings.Create'' [''ns'', ''app'', ''latest'']])
   \<and> ''ImageStream:Forbidden'' \<noteq> ErrImageStreamUnknownErrorCode"
proof -
  have q: "\<not> quotautil_IsErrorQuotaExceeded sampleExternals errNamespaceMixedCase"
    by (simp add: sampleExternals_fields sample_errors)
  have nf: "kerrors_IsNotFound sampleExternals errNamespaceMixedCase"
    by (simp add: sampleExternals_fields sample_errors ReasonForError_def)
  have m: "\<not> streamMissing (sampleFacade (failingFirst errNamespaceMixedCase)) errNamespaceMixedCase"
    by (simp add: streamMissing_def sample_errors)
  have r: "CreateImageStreamMapping sampleExternals (sampleFacade (failingFirst errNamespaceMixedCase))
        (recording ''user'' sampleScript) ''latest'' (Some sampleImage) []
      = (Return (Some (NewError ''ImageStream:Forbidden''
                         ''CreateImageStreamMapping: error creating ns/app ImageStreamMapping''
                         (Inl errNamespaceMixedCase))),
         sampleFacade (failingFirst errNamespaceMixedCase),
         [Call ''registry'' ''ImageStreamMappings.Create'' [''ns'', ''app'', ''latest'']])"
    using q nf
    by (simp add: CreateImageStreamMapping_def first_create_sample Let_def)
       (simp add: sample_errors ToLower_Namespaces Reference_def sample_name code_defs)
  show ?thesis using q m r by (simp add: code_defs)
qed

text \<open>
  Claim C2. When the first mapping creation fails with the stream-missing shape, the
  stream is created once through the user's client, in the state the first attempt
  left. If that creation is refused (it fails, neither with already-exists nor with
  conflict) the function returns there, the facade unchanged: with
  \<open>ImageStream:Forbidden\<close> for a forbidden, unauthorized or quota-exceeded error and
  with \<open>ImageStream:Unknown\<close> for any other. If it succeeds, or fails with
  already-exists or conflict, the name-only stream is put into the getter's cache and
  the mapping is created once more, in the state the provisioning left; the function
  returns in the state that second attempt left, with no error if it succeeded, with
  \<open>ImageStream:Forbidden\<close> if it failed with quota exceeded and with
  \<open>ImageStream:Unknown\<close> if it failed otherwise.
\<close>

theorem CreateImageStreamMapping_provision_and_retry:
  assumes first: "ImageStreamMappings_Create (registryOSClient is) (namespace is)
             \<lparr>ImageStreamMapping.Namespace = namespace is, ImageStreamMapping.Name = name is,
              ImageStreamMapping.Image = img, ImageStreamMapping.Tag = tag\<rparr> w = (Some err, w1)"
    and noquota: "\<not> quotautil_IsErrorQuotaExceeded X err"
    and missing: "streamMissing is err"
    and prov: "ImageStreams_Create userClient (namespace is)
             (ImageStream_zero\<lparr>ImageStream.Name := name is\<rparr>) w1 = (perr, w2)"
    and second: "ImageStreamMappings_Create (registryOSClient is) (namespace is)
             \<lparr>ImageStreamMapping.Namespace = namespace is, ImageStreamMapping.Name = name is,
              ImageStreamMapping.Image = img, ImageStreamMapping.Tag = tag\<rparr> w2 = (err2, w3)"
  shows "(\<forall>e. perr = Some e \<and> \<not> kerrors_IsAlreadyExists X e \<and> \<not> kerrors_IsConflict X e
              \<and> (kerrors_IsForbidden X e \<or> kerrors_IsUnauthorized X e
                   \<or> quotautil_IsErrorQuotaExceeded X e) \<longrightarrow>
            (\<exists>r. CreateImageStreamMapping X is userClient tag (Some img) w = (Return (Some r), is, w2)
                 \<and> rerror.Code r = ErrImageStreamForbiddenCode \<and> rerror.Err r = Inl e))
    \<and> (\<forall>e. perr = Some e \<and> \<not> kerrors_IsAlreadyExists X e \<and> \<not> kerrors_IsConflict X e
              \<and> \<not> kerrors_IsForbidden X e \<and> \<not> kerrors_IsUnauthorized X e
              \<and> \<not> quotautil_IsErrorQuotaExceeded X e \<longrightarrow>
            (\<exists>r. CreateImageStreamMapping X is userClient tag (Some img) w = (Return (Some r), is, w2)
                 \<and> rerror.Code r = ErrImageStreamUnknownErrorCode \<and> rerror.Err r = Inl e))
    \<and> (perr = None \<or> (\<exists>e. perr = Some e \<and> (kerrors_IsAlreadyExists X e \<or> kerrors_IsConflict X e)) \<longrightarrow>
          cachedImageStream
            (cacheImageStream (imageStreamGetter is) (ImageStream_zero\<lparr>ImageStream.Name := name is\<rparr>))
            = Some (Inr (ImageStream_zero\<lparr>ImageStream.Name := name is\<rparr>))
          \<and> (err2 = None \<longrightarrow>
                CreateImageStreamMapping X is userClient tag (Some img) w =
                  (Return None,
                   is\<lparr>imageStreamGetter :=
                        cacheImageStream (imageStreamGetter is)
                          (ImageStream_zero\<lparr>ImageStream.Name := name is\<rparr>)\<rparr>, w3))
          \<and> (\<forall>e2. err2 = Some e2 \<and> quotautil_IsErrorQuotaExceeded X e2 \<longrightarrow>
                (\<exists>r. CreateImageStreamMapping X is userClient tag (Some img) w =
                       (Return (Some r),
                        is\<lparr>imageStreamGetter :=
                             cacheImageStream (imageStreamGetter is)
                               (ImageStream_zero\<lparr>ImageStream.Name := name is\<rparr>)\<rparr>, w3)
                     \<and> rerror.Code r = ErrImageStreamForbiddenCode \<and> rerror.Err r = Inl e2))
          \<and> (\<forall>e2. err2 = Some e2 \<and> \<not> quotautil_IsErrorQuotaExceeded X e2 \<longrightarrow>
                (\<exists>r. CreateImageStreamMapping X is userClient tag (Some img) w =
                       (Return (Some r),
                        is\<lparr>imageStreamGetter :=
                             cacheImageStream (imageStreamGetter is)
                               (ImageStream_zero\<lparr>ImageStream.Name := name is\<rparr>)\<rparr>, w3)
                     \<and> rerror.Code r = ErrImageStreamUnknownErrorCode \<and> rerror.Err r = Inl e2)))"
proof -
  have step: "CreateImageStreamMapping X is userClient tag (Some img) w =
      autoProvision X is userClient
        \<lparr>ImageStreamMapping.Namespace = namespace is, ImageStreamMapping.Name = name is,
         ImageStreamMapping.Image = img, ImageStreamMapping.Tag = tag\<rparr> w1"
    using first noquota missing ToLower_imagestreammappings
    by (auto simp: CreateImageStreamMapping_def streamMissing_def StatusNotFound_def Let_def
        split: go_error.splits option.splits)
  show ?thesis
    unfolding step
    using prov second
    by (auto simp: autoProvision_def cacheImageStream_def Let_def)
qed

theorem CreateImageStreamMapping_provision_and_retry_witness:
  "CreateImageStreamMapping sampleExternals (sampleFacade (failingFirst errStreamMissing))
      (recording ''user'' sampleScript) ''latest'' (Some sampleImage) []
    = (Return None,
       (sampleFacade (failingFirst errStreamMissing))
         \<lparr>imageStreamGetter :=
            cacheImageStream (imageStreamGetter (sampleFacade (failingFirst errStreamMissing)))
              (ImageStream_zero\<lparr>ImageStream.Name := ''app''\<rparr>)\<rparr>,
       [Call ''registry'' ''ImageStreamMappings.Create'' [''ns'', ''app'', ''latest''],
        Call ''user'' ''ImageStreams.Create'' [''ns'', ''app''],
        Call ''registry'' ''ImageStreamMappings.Create'' [''ns'', ''app'', ''latest'']])
   \<and> (\<exists>r. CreateImageStreamMapping sampleExternals
             (sampleFacade (failingBoth errStreamMissing errQuota))
             (recording ''user'' (sampleScript\<lparr>onStreamCreate := Some errAlreadyExists\<rparr>))
             ''latest'' (Some sampleImage) []
           = (Return (Some r),
              (sampleFacade (failingBoth errStreamMissing errQuota))
                \<lparr>imageStreamGetter :=
                   cacheImageStream
                     (imageStreamGetter (sampleFacade (failingBoth errStreamMissing errQuota)))
                     (ImageStream_zero\<lparr>ImageStream.Name := ''app''\<rparr>)\<rparr>,
              [Call ''registry'' ''ImageStreamMappings.Create'' [''ns'', ''app'', ''latest''],
               Call ''user'' ''ImageStreams.Create'' [''ns'', ''app''],
               Call ''registry'' ''ImageStreamMappings.Create'' [''ns'', ''app'', ''latest'']])
         \<and> rerror.Code r = ''ImageStream:Forbidden'' \<and> rerror.Err r = Inl errQuota)
   \<and> (\<exists>r. CreateImageStreamMapping sampleExternals (sampleFacade (failingFirst errStreamMissing))
             (recording ''user'' (sampleScript\<lparr>onStreamCreate := Some errForbidden\<rparr>))
             ''latest'' (Some sampleImage) []
           = (Return (Some r), sampleFacade (failingFirst errStreamMissing),
              [Call ''registry'' ''ImageStreamMappings.Create'' [''ns'', ''app'', ''latest''],
               Call ''user'' ''ImageStreams.Create'' [''ns'', ''app'']])
         \<and> rerror.Code r = ''ImageStream:Forbidden'' \<and> rerror.Err r = Inl errForbidden)"
proof -
  let ?c1 = "[Call ''registry'' ''ImageStreamMappings.Create'' [''ns'', ''app'', ''latest'']]"
  let ?c2 = "?c1 @ [Call ''user'' ''ImageStreams.Create'' [''ns'', ''app'']]"
  have noquota: "\<not> quotautil_IsErrorQuotaExceeded sampleExternals errStreamMissing"
    by (simp add: sampleExternals_fields sample_errors)
  have missing: "streamMissing (sampleFacade sc) errStreamMissing" for sc
    by (simp add: streamMissing_def sample_errors sample_name)
  have firstA: "ImageStreamMappings_Create (registryOSClient (sampleFacade (failingFirst errStreamMissing)))
      (namespace (sampleFacade (failingFirst errStreamMissing)))
      \<lparr>ImageStreamMapping.Namespace = namespace (sampleFacade (failingFirst errStreamMissing)),
       ImageStreamMapping.Name = name (sampleFacade (failingFirst errStreamMissing)),
       ImageStreamMapping.Image = sampleImage, ImageStreamMapping.Tag = ''latest''\<rparr> []
      = (Some errStreamMissing, ?c1)"
    by (simp add: mapping_create_sample failingFirst_def)
  have secondA: "ImageStreamMappings_Create (registryOSClient (sampleFacade (failingFirst errStreamMissing)))
      (namespace (sampleFacade (failingFirst errStreamMissing)))
      \<lparr>ImageStreamMapping.Namespace = namespace (sampleFacade (failingFirst errStreamMissing)),
       ImageStreamMapping.Name = name (sampleFacade (failingFirst errStreamMissing)),
       ImageStreamMapping.Image = sampleImage, ImageStreamMapping.Tag = ''latest''\<rparr> ?c2
      = (None, ?c2 @ ?c1)"
    by (simp add: mapping_create_sample failingFirst_def)
  have firstB: "ImageStreamMappings_Create (registryOSClient (sampleFacade (failingBoth errStreamMissing errQuota)))
      (namespace (sampleFacade (failingBoth errStreamMissing errQuota)))
      \<lparr>ImageStreamMapping.Namespace = namespace (sampleFacade (failingBoth errStreamMissing errQuota)),
       ImageStreamMapping.Name = name (sampleFacade (failingBoth errStreamMissing errQuota)),
       ImageStreamMapping.Image = sampleImage, ImageStreamMapping.Tag = ''latest''\<rparr> []
      = (Some errStreamMissing, ?c1)"
    by (simp add: mapping_create_sample failingBoth_def)
  have secondB: "ImageStreamMappings_Create (registryOSClient (sampleFacade (failingBoth errStreamMissing errQuota)))
      (namespace (sampleFacade (failingBoth errStreamMissing errQuota)))
      \<lparr>ImageStreamMapping.Namespace = namespace (sampleFacade (failingBoth errStreamMissing errQuota)),
       ImageStreamMapping.Name = name (sampleFacade (failingBoth errStreamMissing errQuota)),
       ImageStreamMapping.Image = sampleImage, ImageStreamMapping.Tag = ''latest''\<rparr> ?c2
      = (Some errQuota, ?c2 @ ?c1)"
    by (simp add: mapping_create_sample failingBoth_def)
  have provOk: "ImageStreams_Create (recording ''user'' sampleScript)
      (namespace (sampleFacade sc'))
      (ImageStream_zero\<lparr>ImageStream.Name := name (sampleFacade sc')\<rparr>) ?c1 = (None, ?c2)" for sc'
    by (simp add: stream_create_sample sampleScript_def)
  have provAE: "ImageStreams_Create (recording ''user'' (sampleScript\<lparr>onStreamCreate := Some errAlreadyExists\<rparr>))
      (namespace (sampleFacade sc'))
      (ImageStream_zero\<lparr>ImageStream.Name := name (sampleFacade sc')\<rparr>) ?c1
      = (Some errAlreadyExists, ?c2)" for sc'
    by (simp add: stream_create_sample)
  have provForbidden: "ImageStreams_Create (recording ''user'' (sampleScript\<lparr>onStreamCreate := Some errForbidden\<rparr>))
      (namespace (sampleFacade sc'))
      (ImageStream_zero\<lparr>ImageStream.Name := name (sampleFacade sc')\<rparr>) ?c1
      = (Some errForbidden, ?c2)" for sc'
    by (simp add: stream_create_sample)
  have cls: "kerrors_IsAlreadyExists sampleExternals errAlreadyExists"
    "quotautil_IsErrorQuotaExceeded sampleExternals errQuota"
    "\<not> kerrors_IsAlreadyExists sampleExternals errForbidden"
    "\<not> kerrors_IsConflict sampleExternals errForbidden"
    "kerrors_IsForbidden sampleExternals errForbidden"
    by (simp_all add: sampleExternals_fields ReasonForError_def errAlreadyExists_def errForbidden_def
          sample_errors)
  have A: "CreateImageStreamMapping sampleExternals (sampleFacade (failingFirst errStreamMissing))
      (recording ''user'' sampleScript) ''latest'' (Some sampleImage) []
    = (Return None,
       (sampleFacade (failingFirst errStreamMissing))
         \<lparr>imageStreamGetter :=
            cacheImageStream (imageStreamGetter (sampleFacade (failingFirst errStreamMissing)))
              (ImageStream_zero\<lparr>ImageStream.Name := ''app''\<rparr>)\<rparr>,
       ?c2 @ ?c1)"
    using CreateImageStreamMapping_provision_and_retry [OF firstA noquota missing provOk secondA]
    by (simp add: sample_name)
  have B: "\<exists>r. CreateImageStreamMapping sampleExternals
             (sampleFacade (failingBoth errStreamMissing errQuota))
             (recording ''user'' (sampleScript\<lparr>onStreamCreate := Some errAlreadyExists\<rparr>))
             ''latest'' (Some sampleImage) []
           = (Return (Some r),
              (sampleFacade (failingBoth errStreamMissing errQuota))
                \<lparr>imageStreamGetter :=
                   cacheImageStream
                     (imageStreamGetter (sampleFacade (failingBoth errStreamMissing errQuota)))
                     (ImageStream_zero\<lparr>ImageStream.Name := ''app''\<rparr>)\<rparr>,
              ?c2 @ ?c1)
         \<and> rerror.Code r = ''ImageStream:Forbidden'' \<and> rerror.Err r = Inl errQuota"
    using CreateImageStreamMapping_provision_and_retry [OF firstB noquota missing provAE secondB] cls
    by (simp add: sample_name code_defs)
  have C: "\<exists>r. CreateImageStreamMapping sampleExternals (sampleFacade (failingFirst errStreamMissing))
             (recording ''user'' (sampleScript\<lparr>onStreamCreate := Some errForbidden\<rparr>))
             ''latest'' (Some sampleImage) []
           = (Return (Some r), sampleFacade (failingFirst errStreamMissing), ?c2)
         \<and> rerror.Code r = ''ImageStream:Forbidden'' \<and> rerror.Err r = Inl errForbidden"
    using CreateImageStreamMapping_provision_and_retry [OF firstA noquota missing provForbidden secondA] cls
    by (simp add: sample_name code_defs)
  from A B C show ?thesis by simp
qed

text \<open>
  Claim C9 says that the classification never crashes, also on a structured not-found
  error that carries no details. The source does crash there: when the first mapping
  creation fails with an error that is not quota-exceeded, that \<open>kerrors.IsNotFound\<close>
  accepts and whose \<open>Details\<close> pointer is nil, line 442 reads \<open>status.Details.Kind\<close>
  and the function panics, after the one call and with the facade unchanged. Line 450
  of the same function tests \<open>status.Details != nil\<close> before it reads the kind.
\<close>

theorem CreateImageStreamMapping_nil_details:
  assumes "ImageStreamMappings_Create (registryOSClient is) (namespace is)
             \<lparr>ImageStreamMapping.Namespace = namespace is, ImageStreamMapping.Name = name is,
              ImageStreamMapping.Image = img, ImageStreamMapping.Tag = tag\<rparr> w = (Some err, w1)"
    and "\<not> quotautil_IsErrorQuotaExceeded X err"
    and "notFoundWithoutDetails X err"
  shows "CreateImageStreamMapping X is userClient tag (Some img) w = (Panic, is, w1)"
  using assms
  by (auto simp: CreateImageStreamMapping_def notFoundWithoutDetails_def Let_def
      split: go_error.splits option.splits)

theorem CreateImageStreamMapping_nil_details_witness:
  "\<not> quotautil_IsErrorQuotaExceeded sampleExternals errNotFoundNoDetails
   \<and> notFoundWithoutDetails sampleExternals errNotFoundNoDetails
   \<and> CreateImageStreamMapping sampleExternals (sampleFacade (failingFirst errNotFoundNoDetails))
        (recording ''user'' sampleScript) ''latest'' (Some sampleImage) []
      = (Panic, sampleFacade (failingFirst errNotFoundNoDetails),
         [Call ''registry'' ''ImageStreamMappings.Create'' [''ns'', ''app'', ''latest'']])"
proof -
  have q: "\<not> quotautil_IsErrorQuotaExceeded sampleExternals errNotFoundNoDetails"
    by (simp add: sampleExternals_fields sample_errors)
  have n: "notFoundWithoutDetails sampleExternals errNotFoundNoDetails"
    by (simp add: notFoundWithoutDetails_def sampleExternals_fields sample_errors ReasonForError_def)
  show ?thesis
    using CreateImageStreamMapping_nil_details [OF first_create_sample q n] q n by simp
qed

section \<open>TagIsInsecure\<close>

text \<open>
  Claim C3. For every stream the getter resolves, every tag name and every digest,
  \<open>TagIsInsecure\<close> returns no error and the value the spec describes: true when the
  stream's insecure annotation is \<open>"true"\<close>, whatever the tag; otherwise an empty tag
  name is replaced by the tag \<open>originutil.LatestImageTagEvent\<close> finds for the digest,
  and the answer is the import-policy insecure flag of the first entry of the tag spec
  with the resolved name, false when the resolved name is empty or the tag spec has no
  such entry. The facade leaves with the getter in the state the one call to \<open>get\<close>
  produced.
\<close>

theorem TagIsInsecure_policy:
  assumes "get X (imageStreamGetter is) w = (Inr stream, g, w')"
  shows "TagIsInsecure X is tag dgst w =
           ((TagIsInsecure_spec X stream tag dgst, None), is\<lparr>imageStreamGetter := g\<rparr>, w')"
  using assms
  by (auto simp: TagIsInsecure_def TagIsInsecure_spec_def TagIsInsecure_loop_find Let_def
      split: option.splits)

theorem TagIsInsecure_policy_witness:
  "fst (TagIsInsecure sampleExternals
          (sampleFacade (sampleScript\<lparr>onGet := Inr (sampleStream\<lparr>Annotations :=
             [''openshift.io/image.insecureRepository'' \<mapsto> ''true'']\<rparr>)\<rparr>))
          ''stable'' ''sha256:bb'' []) = (True, None)
   \<and> fst (TagIsInsecure sampleExternals (sampleFacade sampleScript) ''latest'' ''sha256:aa'' [])
       = (True, None)
   \<and> fst (TagIsInsecure sampleExternals (sampleFacade sampleScript) ''stable'' ''sha256:bb'' [])
       = (False, None)
   \<and> fst (TagIsInsecure sampleExternals (sampleFacade sampleScript) ''nosuch'' ''sha256:aa'' [])
       = (False, None)
   \<and> fst (TagIsInsecure sampleExternals (sampleFacade sampleScript) [] ''sha256:aa'' [])
       = (True, None)
   \<and> fst (TagIsInsecure sampleExternals (sampleFacade sampleScript) [] ''sha256:zz'' [])
       = (False, None)"
proof -
  have g: "onGet (sampleScript\<lparr>onGet := Inr s\<rparr>) = Inr s" for s by simp
  note A = TagIsInsecure_policy [OF get_sample_ok [OF g]]
  note B = TagIsInsecure_policy [OF get_sample_ok [OF onGet_sample]]
  show ?thesis
    by (simp add: A B TagIsInsecure_spec_def sampleExternals_fields sampleStream_def
          LatestImageTagEvent_spec_def)
qed

section \<open>ResolveImageID\<close>




section \<open>Tags\<close>

text \<open>
  Claim C8. For every stream the getter resolves, \<open>Tags\<close> returns a map and no
  error. A tag name maps to the parsed head digest of the last history listed under
  that name that has one, and to nothing when there is none. So, the tag names of the
  status being distinct, every history decides the entry of its tag: nothing when the
  history is empty, nothing when its first digest string does not parse, the parsed
  digest of its first event otherwise; and a name that the status does not list maps to
  nothing.
\<close>

theorem Tags_head_digests:
  assumes "get X (imageStreamGetter is) w = (Inr stream, g, w')"
  shows "\<exists>m. fst (Tags X is w) = Inr m
      \<and> (\<forall>t. m t = (if headDigests X stream t = [] then None
                     else Some (last (headDigests X stream t))))
      \<and> (distinct (map NamedTagEventList.Tag (Status_Tags stream)) \<longrightarrow>
           (\<forall>history \<in> set (Status_Tags stream).
              case Items history of
                [] \<Rightarrow> m (NamedTagEventList.Tag history) = None
              | e # _ \<Rightarrow>
                  (case digest_Parse X (TagEvent.Image e) of
                     Inl _ \<Rightarrow> m (NamedTagEventList.Tag history) = None
                   | Inr d \<Rightarrow> m (NamedTagEventList.Tag history) = Some d)))
      \<and> (\<forall>t. t \<notin> NamedTagEventList.Tag ` set (Status_Tags stream) \<longrightarrow> m t = None)"
proof -
  let ?m = "Tags_loop X (Status_Tags stream) Map.empty"
  have r: "fst (Tags X is w) = Inr ?m"
    using assms by (simp add: Tags_def)
  have general: "?m t = (if headDigests X stream t = [] then None
                     else Some (last (headDigests X stream t)))" for t
    by (simp add: Tags_loop_last headDigests_def split: list.splits)
  have absent: "t \<notin> NamedTagEventList.Tag ` set (Status_Tags stream) \<Longrightarrow> ?m t = None" for t
  proof -
    assume a: "t \<notin> NamedTagEventList.Tag ` set (Status_Tags stream)"
    have "t \<notin> NamedTagEventList.Tag ` set ks \<Longrightarrow>
        List.map_filter (\<lambda>h. if NamedTagEventList.Tag h = t then headDigest X h else None) ks = []" for ks
      by (induction ks) auto
    from this [OF a] show ?thesis
      by (simp add: Tags_loop_last)
  qed
  have each: "m' = ?m \<Longrightarrow> distinct (map NamedTagEventList.Tag (Status_Tags stream)) \<Longrightarrow>
      history \<in> set (Status_Tags stream) \<Longrightarrow>
      (case Items history of
                [] \<Rightarrow> m' (NamedTagEventList.Tag history) = None
              | e # _ \<Rightarrow>
                  (case digest_Parse X (TagEvent.Image e) of
                     Inl _ \<Rightarrow> m' (NamedTagEventList.Tag history) = None
                   | Inr d \<Rightarrow> m' (NamedTagEventList.Tag history) = Some d))" for history m'
    using headDigests_distinct [of "Status_Tags stream" history X]
    by (auto simp: Tags_loop_last headDigest_def split: list.splits sum.splits)
  show ?thesis
    using r general absent each [OF refl] by blast
qed

theorem Tags_head_digests_witness:
  "\<exists>m. fst (Tags sampleExternals (sampleFacade sampleScript) []) = Inr m
      \<and> distinct (map NamedTagEventList.Tag (Status_Tags sampleStream))
      \<and> m ''latest'' = Some ''sha256:aa'' \<and> m ''stable'' = Some ''sha256:bb''
      \<and> m ''empty'' = None \<and> m ''broken'' = None \<and> m ''absent'' = None"
proof -
  have d: "distinct (map NamedTagEventList.Tag (Status_Tags sampleStream))"
    by (simp add: sampleStream_def)
  obtain m where m: "fst (Tags sampleExternals (sampleFacade sampleScript) []) = Inr m"
    and each: "distinct (map NamedTagEventList.Tag (Status_Tags sampleStream)) \<longrightarrow>
           (\<forall>history \<in> set (Status_Tags sampleStream).
              case Items history of
                [] \<Rightarrow> m (NamedTagEventList.Tag history) = None
              | e # _ \<Rightarrow>
                  (case digest_Parse sampleExternals (TagEvent.Image e) of
                     Inl _ \<Rightarrow> m (NamedTagEventList.Tag history) = None
                   | Inr d \<Rightarrow> m (NamedTagEventList.Tag history) = Some d))"
    and absent: "\<forall>t. t \<notin> NamedTagEventList.Tag ` set (Status_Tags sampleStream) \<longrightarrow> m t = None"
    using Tags_head_digests [OF get_sample_ok [OF onGet_sample]] by blast
  have "m ''latest'' = Some ''sha256:aa'' \<and> m ''stable'' = Some ''sha256:bb''
      \<and> m ''empty'' = None \<and> m ''broken'' = None"
    using each d by (simp add: sampleStream_def sampleExternals_fields)
  moreover have "m ''absent'' = None"
    using absent by (simp add: sampleStream_def)
  ultimately show ?thesis using m d by blast
qed

section \<open>GetImageOfImageStream\<close>

text \<open>
  Claim C4. From a state whose image cache points into the image store,
  \<open>GetImageOfImageStream\<close> does not panic, and when it returns a pointer \<open>r\<close>: the
  record at \<open>r\<close> is the record \<open>getImage\<close> hands out for the digest, at an address
  \<open>p\<close> other than \<open>r\<close>, with its \<open>DockerImageReference\<close> replaced by the one of the
  TagEvent that \<open>ResolveImageID\<close> found. A later \<open>getImage\<close> for the same digest
  returns \<open>p\<close> again and changes neither the facade, the store nor the service, and
  the record at \<open>p\<close> is the original: the one that was cached before the call, at
  an address the call left as it was, or the one the service answered during the call.
  No record that was in the store before the call is changed by it.
\<close>

theorem GetImageOfImageStream_copy:
  assumes wf: "cacheInStore (imageClient is) store"
    and run: "GetImageOfImageStream X is dgst store w = (res, is', store', w')"
  shows "res \<noteq> Panic
    \<and> (\<forall>r. res = Return (Inr r) \<longrightarrow>
          (\<exists>te p. fst (ResolveImageID X is dgst w) = Inr te
             \<and> r < length store' \<and> p < length store' \<and> p \<noteq> r
             \<and> store' ! r =
                 (store' ! p)\<lparr>Image.DockerImageReference := TagEvent.DockerImageReference te\<rparr>
             \<and> getImage X is' dgst store' w' = (Inr p, is', store', w')
             \<and> (case cache (imageClient is) dgst of
                   Some c \<Rightarrow> c = Inr p \<and> p < length store
                 | None \<Rightarrow>
                     fst (Images_Get (client (imageClient is)) dgst
                            (snd (snd (ResolveImageID X is dgst w)))) = Inr (store' ! p))))
    \<and> (\<forall>q < length store. store' ! q = store ! q)
    \<and> length store \<le> length store'"
proof -
  obtain r1 is1 w1 where res1: "ResolveImageID X is dgst w = (r1, is1, w1)"
    by (cases "ResolveImageID X is dgst w")
  have ic: "imageClient is1 = imageClient is"
    using res1 by (rule ResolveImageID_keeps_imageClient)
  show ?thesis
  proof (cases r1)
    case (Inl err)
    then show ?thesis
      using run res1
      by (auto simp: GetImageOfImageStream_def getStoredImageOfImageStream_def)
  next
    case (Inr te)
    obtain r2 ig2 store2 w2 where g: "Get (imageClient is) dgst store w1 = (r2, ig2, store2, w2)"
      by (cases "Get (imageClient is) dgst store w1")
    note F = Get_frame [OF wf g]
    show ?thesis
    proof (cases r2)
      case (Inl e)
      then show ?thesis
        using run res1 \<open>r1 = Inr te\<close> g ic F
        by (auto simp: GetImageOfImageStream_def getStoredImageOfImageStream_def getImage_Get)
    next
      case (Inr p)
      have p: "p < length store2" using F Inr by simp
      have out: "res = Return (Inr (length store2))" "is' = is1\<lparr>imageClient := ig2\<rparr>"
        "store' = store2 @ [(store2 ! p)\<lparr>Image.DockerImageReference := TagEvent.DockerImageReference te\<rparr>]"
        "w' = w2"
        using run res1 \<open>r1 = Inr te\<close> g ic Inr p
        by (auto simp: GetImageOfImageStream_def getStoredImageOfImageStream_def getImage_Get Let_def)
      have cached: "cache ig2 dgst = Some (Inr p)" using F Inr by simp
      have again: "getImage X is' dgst store' w' = (Inr p, is', store', w')"
        by (simp add: getImage_Get out Get_cached [OF cached])
      have orig: "(case cache (imageClient is) dgst of
                   Some c \<Rightarrow> c = Inr p \<and> p < length store
                 | None \<Rightarrow>
                     fst (Images_Get (client (imageClient is)) dgst
                            (snd (snd (ResolveImageID X is dgst w)))) = Inr (store' ! p))"
        using F Inr p by (auto simp: res1 out nth_append split: option.splits)
      have frame: "\<forall>q < length store. store' ! q = store ! q" "length store \<le> length store'"
        using F by (auto simp: out nth_append)
      show ?thesis
        using out again orig frame p res1 \<open>r1 = Inr te\<close>
        by (auto simp: nth_append)
    qed
  qed
qed

theorem GetImageOfImageStream_copy_witness:
  "cacheInStore (imageClient (sampleFacade sampleScript)) []
   \<and> Image.DockerImageReference sampleImage = ''registry.local/ns/app@sha256:aa''
   \<and> (\<exists>is'. GetImageOfImageStream sampleExternals (sampleFacade sampleScript) ''sha256:aa'' [] []
            = (Return (Inr 1), is',
               [sampleImage,
                sampleImage\<lparr>Image.DockerImageReference := ''quay.example/team/app@sha256:aa''\<rparr>],
               [Call ''registry'' ''ImageStreams.Get'' [''ns'', ''app''],
                Call ''registry'' ''Images.Get'' [''sha256:aa'']])
          \<and> getImage sampleExternals is' ''sha256:aa''
               [sampleImage,
                sampleImage\<lparr>Image.DockerImageReference := ''quay.example/team/app@sha256:aa''\<rparr>]
               [Call ''registry'' ''ImageStreams.Get'' [''ns'', ''app''],
                Call ''registry'' ''Images.Get'' [''sha256:aa'']]
            = (Inr 0, is',
               [sampleImage,
                sampleImage\<lparr>Image.DockerImageReference := ''quay.example/team/app@sha256:aa''\<rparr>],
               [Call ''registry'' ''ImageStreams.Get'' [''ns'', ''app''],
                Call ''registry'' ''Images.Get'' [''sha256:aa'']]))"
proof -
  let ?store = "[sampleImage,
                sampleImage\<lparr>Image.DockerImageReference := ''quay.example/team/app@sha256:aa''\<rparr>]"
  let ?calls = "[Call ''registry'' ''ImageStreams.Get'' [''ns'', ''app''],
                Call ''registry'' ''Images.Get'' [''sha256:aa'']]"
  have wf: "cacheInStore (imageClient (sampleFacade sampleScript)) []"
    by (simp add: cacheInStore_def sampleFacade_def New_def newCachedImageGetter_def)
  have ref: "Image.DockerImageReference sampleImage = ''registry.local/ns/app@sha256:aa''"
    by (simp add: sampleImage_def)
  have resolve: "ResolveImageID sampleExternals (sampleFacade sampleScript) ''sha256:aa'' []
      = (Inr \<lparr>Created = 2, TagEvent.DockerImageReference = ''quay.example/team/app@sha256:aa'',
               TagEvent.Image = ''sha256:aa'', Generation = 2\<rparr>,
         (sampleFacade sampleScript)
           \<lparr>imageStreamGetter :=
              (imageStreamGetter (sampleFacade sampleScript))
                \<lparr>cachedImageStream := Some (Inr sampleStream)\<rparr>\<rparr>,
         [Call ''registry'' ''ImageStreams.Get'' [''ns'', ''app'']])"
    by (simp add: ResolveImageID_def get_sample_ok [OF onGet_sample] sampleExternals_fields
          sample_resolve_aa)
  obtain res is' store' w' where
    run: "GetImageOfImageStream sampleExternals (sampleFacade sampleScript) ''sha256:aa'' [] []
            = (res, is', store', w')"
    by (cases "GetImageOfImageStream sampleExternals (sampleFacade sampleScript) ''sha256:aa'' [] []")
  have out: "res = Return (Inr 1) \<and> store' = ?store \<and> w' = ?calls"
    using run
    by (simp add: GetImageOfImageStream_def getStoredImageOfImageStream_def resolve getImage_def
          Get_def Let_def)
       (auto simp: sampleFacade_def New_def newCachedImageGetter_def recording_def sampleScript_def)
  obtain p where p: "p < length store'" "p \<noteq> 1"
    and again: "getImage sampleExternals is' ''sha256:aa'' store' w' = (Inr p, is', store', w')"
    using GetImageOfImageStream_copy [OF wf run] out by auto
  have "p = 0" using p out by auto
  then show ?thesis
    using wf ref run again out by auto
qed

section \<open>RemoteRepositoriesForBlob\<close>

text \<open>
  Claim C6. For every stream, \<open>imageStreamHasExternalReferences\<close> is false exactly
  when the reference string of every item of the tag status starts with a prefix
  \<open>{registry-host}/{namespace}/{name}@\<close> for one of the stream's local registry
  hostnames; these are the non-empty registry of the parsed
  \<open>Status.DockerImageRepository\<close> and, when \<open>Status.PublicDockerImageRepository\<close> is
  not empty, the non-empty registry parsed from it. On a stream the getter resolves and
  that has no external references, \<open>RemoteRepositoriesForBlob\<close> returns empty lists
  and no error, and it leaves the getter and the service in the state the call to
  \<open>get\<close> produced, the getter's memoized layers as they were: \<open>layers\<close> is not
  called.
\<close>

theorem RemoteRepositoriesForBlob_local_only:
  "((imageStreamHasExternalReferences X stream = False)
      = (\<forall>history \<in> set (Status_Tags stream). \<forall>item \<in> set (Items history).
           \<exists>host \<in> set (getLocalRegistryNames X stream).
             prefix (localPrefix stream host) (TagEvent.DockerImageReference item)))
   \<and> (\<forall>host. (host \<in> set (getLocalRegistryNames X stream))
         = (host \<noteq> []
            \<and> (host = Registry (fst (imageapi_ParseDockerImageReference X
                                        (Status_DockerImageRepository stream)))
                \<or> Status_PublicDockerImageRepository stream \<noteq> []
                  \<and> host = Registry (fst (imageapi_ParseDockerImageReference X
                                            (Status_PublicDockerImageRepository stream))))))
   \<and> (get X (imageStreamGetter is) w = (Inr stream, g, w')
        \<and> \<not> imageStreamHasExternalReferences X stream \<longrightarrow>
          RemoteRepositoriesForBlob X is dgst w = (([], [], None), is\<lparr>imageStreamGetter := g\<rparr>, w')
          \<and> cachedImageStreamLayers g = cachedImageStreamLayers (imageStreamGetter is))"
proof -
  have a: "(imageStreamHasExternalReferences X stream = False)
      = (\<forall>history \<in> set (Status_Tags stream). \<forall>item \<in> set (Items history).
           \<exists>host \<in> set (getLocalRegistryNames X stream).
             prefix (localPrefix stream host) (TagEvent.DockerImageReference item))"
    by (simp add: imageStreamHasExternalReferences_def Let_def tagsHaveExternal_iff
          itemsHaveExternal_iff hasLocalPrefix_iff localPrefix_def)
  have b: "(host \<in> set (getLocalRegistryNames X stream))
         = (host \<noteq> []
            \<and> (host = Registry (fst (imageapi_ParseDockerImageReference X
                                        (Status_DockerImageRepository stream)))
                \<or> Status_PublicDockerImageRepository stream \<noteq> []
                  \<and> host = Registry (fst (imageapi_ParseDockerImageReference X
                                            (Status_PublicDockerImageRepository stream)))))" for host
    by (auto simp: getLocalRegistryNames_def Let_def)
  have c: "get X (imageStreamGetter is) w = (Inr stream, g, w')
        \<and> \<not> imageStreamHasExternalReferences X stream \<longrightarrow>
          RemoteRepositoriesForBlob X is dgst w = (([], [], None), is\<lparr>imageStreamGetter := g\<rparr>, w')
          \<and> cachedImageStreamLayers g = cachedImageStreamLayers (imageStreamGetter is)"
    by (auto simp: RemoteRepositoriesForBlob_def dest: get_keeps_layers)
  from a b c show ?thesis by blast
qed

theorem RemoteRepositoriesForBlob_local_only_witness:
  "imageStreamHasExternalReferences sampleExternals sampleStream
   \<and> \<not> imageStreamHasExternalReferences sampleExternals localStream
   \<and> RemoteRepositoriesForBlob sampleExternals
        (sampleFacade (sampleScript\<lparr>onGet := Inr localStream\<rparr>)) ''sha256:dd'' []
      = (([], [], None),
         (sampleFacade (sampleScript\<lparr>onGet := Inr localStream\<rparr>))
           \<lparr>imageStreamGetter :=
              (imageStreamGetter (sampleFacade (sampleScript\<lparr>onGet := Inr localStream\<rparr>)))
                \<lparr>cachedImageStream := Some (Inr localStream)\<rparr>\<rparr>,
         [Call ''registry'' ''ImageStreams.Get'' [''ns'', ''app'']])"
proof -
  let ?is = "sampleFacade (sampleScript\<lparr>onGet := Inr localStream\<rparr>)"
  let ?g = "(imageStreamGetter ?is)\<lparr>cachedImageStream := Some (Inr localStream)\<rparr>"
  let ?w = "[Call ''registry'' ''ImageStreams.Get'' [''ns'', ''app'']]"
  have g: "onGet (sampleScript\<lparr>onGet := Inr localStream\<rparr>) = Inr localStream" by simp
  have ext: "imageStreamHasExternalReferences sampleExternals sampleStream"
    using RemoteRepositoriesForBlob_local_only [of sampleExternals sampleStream ?is "[]" ?g ?w "''sha256:dd''"]
    by (simp add: localNames_sample localPrefix_def) (simp add: sampleStream_def)
  have loc: "\<not> imageStreamHasExternalReferences sampleExternals localStream"
    using RemoteRepositoriesForBlob_local_only [of sampleExternals localStream ?is "[]" ?g ?w "''sha256:dd''"]
    by (simp add: localNames_sample localPrefix_def) (simp add: sampleStream_def localStream_def)
  show ?thesis
    using RemoteRepositoriesForBlob_local_only [of sampleExternals localStream ?is "[]" ?g ?w "''sha256:dd''"]
      get_sample_ok [OF g] ext loc
    by simp
qed

section \<open>Clone\<close>

text \<open>
  Claim C10. \<open>Clone\<close>, called on a facade with that facade's own namespace and name,
  returns the receiver's address and leaves the store of facades as it was, so the
  caller holds the same instance with the caches it has filled. Called with another
  namespace or name it returns a new address: the facades that existed are unchanged,
  and the one at the new address is what \<open>New\<close> builds from the requested identity
  and the receiver's client, with an empty image cache and a getter that has fetched
  nothing.
\<close>

theorem Clone_identity:
  assumes "this < length heap"
  shows "(namespace (heap ! this) = ns \<and> name (heap ! this) = nm \<longrightarrow>
            Clone heap this ns nm = Return (this, heap))
    \<and> (\<not> (namespace (heap ! this) = ns \<and> name (heap ! this) = nm) \<longrightarrow>
          (\<exists>that heap'. Clone heap this ns nm = Return (that, heap')
             \<and> that \<noteq> this \<and> \<not> that < length heap \<and> that < length heap'
             \<and> (\<forall>p < length heap. heap' ! p = heap ! p)
             \<and> heap' ! that = New ns nm (registryOSClient (heap ! this))
             \<and> namespace (heap' ! that) = ns \<and> name (heap' ! that) = nm
             \<and> registryOSClient (heap' ! that) = registryOSClient (heap ! this)
             \<and> client (imageClient (heap' ! that)) = registryOSClient (heap ! this)
             \<and> cache (imageClient (heap' ! that)) = Map.empty
             \<and> isNamespacer (imageStreamGetter (heap' ! that)) = registryOSClient (heap ! this)
             \<and> cachedImageStream (imageStreamGetter (heap' ! that)) = None
             \<and> cachedImageStreamLayers (imageStreamGetter (heap' ! that)) = None))"
  using assms
  by (auto simp: Clone_def Let_def New_def newCachedImageGetter_def nth_append)

theorem Clone_identity_witness:
  "Clone [warmFacade] 0 ''ns'' ''app'' = Return (0, [warmFacade])
   \<and> cachedImageStream (imageStreamGetter ([warmFacade] ! 0)) = Some (Inr sampleStream)
   \<and> (\<exists>that heap'. Clone [warmFacade] 0 ''ns'' ''other'' = Return (that, heap')
         \<and> that \<noteq> 0 \<and> heap' ! 0 = warmFacade
         \<and> heap' ! that = New ''ns'' ''other'' (recording ''registry'' sampleScript)
         \<and> cachedImageStream (imageStreamGetter (heap' ! that)) = None
         \<and> cache (imageClient (heap' ! that)) = Map.empty)"
proof -
  have l: "0 < length [warmFacade]" by simp
  have id: "namespace warmFacade = ''ns''" "name warmFacade = ''app''"
    "registryOSClient warmFacade = recording ''registry'' sampleScript"
    by (simp_all add: warmFacade_def sampleFacade_def New_def)
  have a: "Clone [warmFacade] 0 ''ns'' ''app'' = Return (0, [warmFacade])"
    using Clone_identity [OF l, of "''ns''" "''app''"] id by simp
  have b: "\<exists>that heap'. Clone [warmFacade] 0 ''ns'' ''other'' = Return (that, heap')
         \<and> that \<noteq> 0 \<and> heap' ! 0 = warmFacade
         \<and> heap' ! that = New ''ns'' ''other'' (recording ''registry'' sampleScript)
         \<and> cachedImageStream (imageStreamGetter (heap' ! that)) = None
         \<and> cache (imageClient (heap' ! that)) = Map.empty"
    using Clone_identity [OF l, of "''ns''" "''other''"] id by auto
  have c: "cachedImageStream (imageStreamGetter ([warmFacade] ! 0)) = Some (Inr sampleStream)"
    by (simp add: warmFacade_def cacheImageStream_def)
  from a b c show ?thesis by blast
qed

end
